theory Spec2Isabelle
  imports Complex_Main
begin

section \<open>Common Python values\<close>

text \<open>
  Python floats are modelled by the reals (no rounding, no NaN, no infinities); where a
  property of the selection by side depends on rounding, the rounded evaluation is a
  parameter. The coordinates of a source grid of the bend kernel and the numbers of the
  vector math node are Python floats, not numpy scalars.
  An exception raised by the source is a value \<open>Inl e\<close> of a sum type.
\<close>

datatype py_error = ValueError | ZeroDivisionError | TypeError | IndexError
  | Exception string

type_synonym vec3 = "real \<times> real \<times> real"

definition ebind :: "py_error + 'a \<Rightarrow> ('a \<Rightarrow> py_error + 'b) \<Rightarrow> py_error + 'b" where
  "ebind m f = (case m of Inl e \<Rightarrow> Inl e | Inr x \<Rightarrow> f x)"

text \<open>A list comprehension whose body may raise: the first exception ends it.\<close>

fun mapM :: "('a \<Rightarrow> py_error + 'b) \<Rightarrow> 'a list \<Rightarrow> py_error + 'b list" where
  "mapM f [] = Inr []"
| "mapM f (x # xs) =
     (case f x of Inl e \<Rightarrow> Inl e
      | Inr y \<Rightarrow> (case mapM f xs of Inl e \<Rightarrow> Inl e | Inr ys \<Rightarrow> Inr (y # ys)))"

text \<open>The builtins \<open>max\<close> and \<open>min\<close> raise ValueError on an empty sequence.\<close>

definition py_max :: "real list \<Rightarrow> py_error + real" where
  "py_max xs = (case xs of [] \<Rightarrow> Inl ValueError | x # r \<Rightarrow> Inr (fold max r x))"

definition py_min :: "real list \<Rightarrow> py_error + real" where
  "py_min xs = (case xs of [] \<Rightarrow> Inl ValueError | x # r \<Rightarrow> Inr (fold min r x))"

text \<open>
  Division of Python floats raises ZeroDivisionError on a zero divisor. (Division of
  numpy float64 scalars yields nan or inf with a warning instead; such operands are not
  modelled.)
\<close>

definition py_div :: "real \<Rightarrow> real \<Rightarrow> py_error + real" where
  "py_div a b = (if b = 0 then Inl ZeroDivisionError else Inr (a / b))"

text \<open>\<open>math.sqrt\<close> raises ValueError on a negative argument.\<close>

definition py_sqrt :: "real \<Rightarrow> py_error + real" where
  "py_sqrt x = (if x < 0 then Inl ValueError else Inr (sqrt x))"

text \<open>
  \<open>vertex[i]\<close> on a 3-tuple. The indices used by the nodes come from
  \<open>get_other_axes\<close> and \<open>get_axis_idx\<close> only, so they are 0, 1 or 2.
\<close>

fun nth3 :: "vec3 \<Rightarrow> nat \<Rightarrow> real" where
  "nth3 (x, y, z) i = (if i = 0 then x else if i = 1 then y else z)"

text \<open>numpy arithmetic on arrays of three floats.\<close>

fun vadd :: "vec3 \<Rightarrow> vec3 \<Rightarrow> vec3" where
  "vadd (a, b, c) (x, y, z) = (a + x, b + y, c + z)"

fun vsub :: "vec3 \<Rightarrow> vec3 \<Rightarrow> vec3" where
  "vsub (a, b, c) (x, y, z) = (a - x, b - y, c - z)"

fun vscale :: "real \<Rightarrow> vec3 \<Rightarrow> vec3" where
  "vscale k (x, y, z) = (k * x, k * y, k * z)"

fun vdot :: "vec3 \<Rightarrow> vec3 \<Rightarrow> real" where
  "vdot (a, b, c) (x, y, z) = a * x + b * y + c * z"

section \<open>Bend along surface (nodes/modifier\_change/bend\_along\_surface.py)\<close>

datatype axis = X | Y | Z

datatype bend_mode = SPL | LIN

datatype bend_metric = MANHATTAN | DISTANCE | POINTS | CHEBYSHEV

datatype spline_constructor = LinearSpline | CubicSpline

record bend_node =
  mode :: bend_mode
  metric :: bend_metric
  orient_axis_prop :: axis
  autoscale :: bool

text \<open>
  The fitted surface object of \<open>sverchok.utils.geom\<close> (not part of the sources at hand):
  the node only calls its two evaluation methods.
\<close>

record spline2d =
  eval :: "real \<Rightarrow> real \<Rightarrow> vec3"
  normal :: "real \<Rightarrow> real \<Rightarrow> vec3"

text \<open>
  The constructor \<open>Spline2D(surface, u_spline_constructor, metric)\<close> is a parameter of
  the model; it may raise on a surface grid it cannot use.
\<close>

type_synonym spline2d_ctor =
  "vec3 list list \<Rightarrow> spline_constructor \<Rightarrow> bend_metric \<Rightarrow> py_error + spline2d"

fun get_axis_idx :: "axis \<Rightarrow> nat" where
  "get_axis_idx X = 0"
| "get_axis_idx Y = 1"
| "get_axis_idx Z = 2"

definition orient_axis :: "bend_node \<Rightarrow> nat" where
  "orient_axis node = get_axis_idx (orient_axis_prop node)"

definition build_spline :: "spline2d_ctor \<Rightarrow> bend_node \<Rightarrow> vec3 list list \<Rightarrow> py_error + spline2d" where
  "build_spline Spline2D node surface =
     (let constructor = (if mode node = LIN then LinearSpline else CubicSpline)
      in Spline2D surface constructor (metric node))"

definition get_other_axes :: "bend_node \<Rightarrow> nat \<times> nat" where
  "get_other_axes node =
     (if orient_axis_prop node = X then (1, 2)
      else if orient_axis_prop node = Y then (0, 2)
      else (0, 1))"

definition get_uv :: "bend_node \<Rightarrow> vec3 list list \<Rightarrow> py_error + (real \<times> real \<times> (real \<times> real) list list)" where
  "get_uv node vertices =
     (case get_other_axes node of (u_index, v_index) \<Rightarrow>
        let us = map (\<lambda>vertex. nth3 vertex u_index) (concat vertices);
            vs = map (\<lambda>vertex. nth3 vertex v_index) (concat vertices)
        in ebind (py_min us) (\<lambda>min_u.
           ebind (py_max us) (\<lambda>max_u.
           ebind (py_min vs) (\<lambda>min_v.
           ebind (py_max vs) (\<lambda>max_v.
             let size_u = max_u - min_u;
                 size_v = max_v - min_v
             in ebind (mapM (\<lambda>col. mapM (\<lambda>vertex.
                    ebind (py_div (nth3 vertex u_index - min_u) size_u) (\<lambda>u.
                    ebind (py_div (nth3 vertex v_index - min_v) size_v) (\<lambda>v.
                      Inr (u, v)))) col) vertices)
                  (\<lambda>result. Inr (size_u, size_v, result)))))))"

text \<open>
  Modelled from the spec: \<open>diameter\<close> of \<open>sverchok.utils.geom\<close>, which is not part of
  the sources at hand. The spec calls it the surface's physical extent along an axis:
  the largest minus the smallest coordinate along that axis.
\<close>

definition diameter :: "vec3 list \<Rightarrow> nat \<Rightarrow> py_error + real" where
  "diameter vertices ax =
     (let xs = map (\<lambda>vertex. nth3 vertex ax) vertices
      in ebind (py_max xs) (\<lambda>M. ebind (py_min xs) (\<lambda>m. Inr (M - m))))"

definition scale_factor :: "bend_node \<Rightarrow> vec3 list list \<Rightarrow> real \<Rightarrow> real \<Rightarrow> py_error + real" where
  "scale_factor node surface src_size_u src_size_v =
     (if autoscale node then
        (case get_other_axes node of (u_index, v_index) \<Rightarrow>
           let surface_flattened = concat surface
           in ebind (diameter surface_flattened u_index) (\<lambda>du.
              ebind (py_div du src_size_u) (\<lambda>scale_u.
              ebind (diameter surface_flattened v_index) (\<lambda>dv.
              ebind (py_div dv src_size_v) (\<lambda>scale_v.
                py_sqrt (scale_u * scale_v))))))
      else Inr 1)"

definition new_vertex :: "bend_node \<Rightarrow> spline2d \<Rightarrow> real \<Rightarrow> (real \<times> real) \<times> vec3 \<Rightarrow> vec3" where
  "new_vertex node spline scale_z p =
     (case p of ((u, v), src_vertex) \<Rightarrow>
        let spline_vertex = eval spline u v;
            spline_normal = normal spline u v;
            z = nth3 src_vertex (orient_axis node)
        in vadd spline_vertex (vscale (scale_z * z) spline_normal))"

text \<open>The body of the loop of \<open>process\<close>, for one pair of a source grid and a surface grid.\<close>

definition bend :: "spline2d_ctor \<Rightarrow> bend_node \<Rightarrow> vec3 list list \<Rightarrow> vec3 list list \<Rightarrow> py_error + vec3 list list" where
  "bend Spline2D node vertices surface =
     ebind (build_spline Spline2D node surface) (\<lambda>spline.
     ebind (get_uv node vertices) (\<lambda>(src_size_u, src_size_v, uv_coords).
     ebind (scale_factor node surface src_size_u src_size_v) (\<lambda>scale_z.
       Inr (map (\<lambda>(uv_row, vertices_row).
              map (new_vertex node spline scale_z) (zip uv_row vertices_row))
            (zip uv_coords vertices)))))"

subsection \<open>The quantities the description of the kernel speaks of\<close>

text \<open>
  The smallest and largest coordinate of a grid along an axis, its extent, the normalised
  (u, v) of a source point, and the displacement scale factor.
\<close>

definition grid_min :: "nat \<Rightarrow> vec3 list list \<Rightarrow> real" where
  "grid_min i g = Min (set (map (\<lambda>p. nth3 p i) (concat g)))"

definition grid_max :: "nat \<Rightarrow> vec3 list list \<Rightarrow> real" where
  "grid_max i g = Max (set (map (\<lambda>p. nth3 p i) (concat g)))"

definition grid_extent :: "nat \<Rightarrow> vec3 list list \<Rightarrow> real" where
  "grid_extent i g = grid_max i g - grid_min i g"

definition normalized_uv :: "bend_node \<Rightarrow> vec3 list list \<Rightarrow> vec3 \<Rightarrow> real \<times> real" where
  "normalized_uv node g p =
     (case get_other_axes node of (ui, vi) \<Rightarrow>
        ((nth3 p ui - grid_min ui g) / grid_extent ui g,
         (nth3 p vi - grid_min vi g) / grid_extent vi g))"

definition displacement_scale :: "bend_node \<Rightarrow> vec3 list list \<Rightarrow> vec3 list list \<Rightarrow> real" where
  "displacement_scale node vertices surface =
     (if autoscale node then
        (case get_other_axes node of (ui, vi) \<Rightarrow>
           sqrt ((grid_extent ui surface / grid_extent ui vertices)
                 * (grid_extent vi surface / grid_extent vi vertices)))
      else 1)"

definition nondegenerate :: "bend_node \<Rightarrow> vec3 list list \<Rightarrow> bool" where
  "nondegenerate node g =
     (case get_other_axes node of (ui, vi) \<Rightarrow>
        concat g \<noteq> [] \<and> grid_extent ui g \<noteq> 0 \<and> grid_extent vi g \<noteq> 0)"










text \<open>
  Modelled from the spec: the spline fitted to a planar surface grid at z = 0 spanning
  the unit square, as the concrete scenario describes it: position (u, v, 0) and
  normal +Z. The fitting code of \<open>sverchok.utils.geom\<close> is not part of the sources at hand.
\<close>

definition flat_spline :: spline2d where
  "flat_spline = \<lparr>eval = (\<lambda>u v. (u, v, 0)), normal = (\<lambda>u v. (0, 0, 1))\<rparr>"

definition flat_Spline2D :: spline2d_ctor where
  "flat_Spline2D surface constructor m = Inr flat_spline"

definition flat_surface :: "vec3 list list" where
  "flat_surface =
     [[(0, 0, 0), (0, 1/2, 0), (0, 1, 0)],
      [(1/2, 0, 0), (1/2, 1/2, 0), (1/2, 1, 0)],
      [(1, 0, 0), (1, 1/2, 0), (1, 1, 0)]]"

definition node_z :: bend_node where
  "node_z = \<lparr>mode = SPL, metric = DISTANCE, orient_axis_prop = Z, autoscale = False\<rparr>"



definition unit_square_grid :: "vec3 list list" where
  "unit_square_grid = [[(0, 0, 1), (0, 1, 2)], [(1, 0, 3), (1, 1, 4)]]"





section \<open>Select solid elements (nodes/solid/solid\_select.py)\<close>

datatype element_kind = VERTS | EDGES | FACES

datatype criterion = SIDE | NORMAL | SPHERE | PLANE | CYLINDER | DIRECTION

record select_node =
  element_type :: element_kind
  criteria_type :: criterion
  include_partial :: bool

text \<open>
  Modelled from the spec: the solid of the CAD kernel and \<open>SvSolidTopology\<close> of
  \<open>sverchok.utils.solid\<close>, which are not part of the sources at hand. The spec gives a
  solid as vertex, edge and face lists with per-element point sampling at a tessellation
  precision. A vertex is its point; an edge carries the indices of its vertices; a face
  those of its vertices and of its edges; the sample points of an edge or face depend on
  the precision. A selected element is denoted by its index in the solid's list.
\<close>

record edge =
  edge_vertexes :: "nat list"
  edge_points :: "real \<Rightarrow> vec3 list"

record face =
  face_vertexes :: "nat list"
  face_edges :: "nat list"
  face_points :: "real \<Rightarrow> vec3 list"

record solid =
  Vertexes :: "vec3 list"
  Edges :: "edge list"
  Faces :: "face list"

text \<open>The topology object after \<open>topo.tessellate(precision)\<close>.\<close>

record topo =
  topo_solid :: solid
  topo_precision :: real

definition tessellate :: "solid \<Rightarrow> real \<Rightarrow> topo" where
  "tessellate s precision = \<lparr>topo_solid = s, topo_precision = precision\<rparr>"

definition get_points_by_edge :: "topo \<Rightarrow> edge \<Rightarrow> vec3 list" where
  "get_points_by_edge t e = edge_points e (topo_precision t)"

definition get_points_by_face :: "topo \<Rightarrow> face \<Rightarrow> vec3 list" where
  "get_points_by_face t f = face_points f (topo_precision t)"

text \<open>
  The fitting and distance functions of \<open>sverchok.utils.geom\<close> that the node calls are
  parameters of the model: the distance of a point to the plane and to the line given by
  a direction and a centre, the direction of the line fitted to sample points, and the
  normal of the plane fitted to sample points.
\<close>

record geom =
  plane_distance :: "vec3 \<Rightarrow> vec3 \<Rightarrow> vec3 \<Rightarrow> real"
  line_distance :: "vec3 \<Rightarrow> vec3 \<Rightarrow> vec3 \<Rightarrow> real"
  line_direction :: "vec3 list \<Rightarrow> vec3"
  plane_normal :: "vec3 list \<Rightarrow> vec3"

text \<open>\<open>any\<close> and \<open>all\<close> on a boolean array.\<close>

definition py_any :: "bool list \<Rightarrow> bool" where
  "py_any bs = list_ex (\<lambda>b. b) bs"

definition py_all :: "bool list \<Rightarrow> bool" where
  "py_all bs = list_all (\<lambda>b. b) bs"

definition check :: "bool \<Rightarrow> bool list \<Rightarrow> bool" where
  "check partial bs = (if partial then py_any bs else py_all bs)"

text \<open>
  \<open>np.linalg.norm\<close> and the division of an array by a number. For a zero direction
  numpy yields NaN components where the model has 0; every comparison with NaN is false.
\<close>

definition vnorm :: "vec3 \<Rightarrow> real" where
  "vnorm d = sqrt (vdot d d)"

fun vdiv :: "vec3 \<Rightarrow> real \<Rightarrow> vec3" where
  "vdiv (x, y, z) n = (x / n, y / n, z / n)"

text \<open>
  Modelled from the spec: the mask functions of \<open>SvSolidTopology\<close>. A vertex passes a
  location test when the condition holds of its point; an edge or face passes when the
  condition holds of any of its sample points (partial selection) or of all of them; the
  range test is a distance to the centre below the radius. The condition of an edge or
  face is a function of the node on the array of sample points; an exception it raises
  ends the loop over the elements.
\<close>

definition get_vertices_by_location_mask :: "solid \<Rightarrow> (vec3 \<Rightarrow> bool) \<Rightarrow> bool list" where
  "get_vertices_by_location_mask s condition = map condition (Vertexes s)"

definition get_vertices_within_range_mask :: "solid \<Rightarrow> vec3 \<Rightarrow> real \<Rightarrow> bool list" where
  "get_vertices_within_range_mask s center radius =
     map (\<lambda>v. vnorm (vsub v center) < radius) (Vertexes s)"

definition get_edges_by_location_mask ::
  "topo \<Rightarrow> (vec3 list \<Rightarrow> py_error + bool list) \<Rightarrow> bool \<Rightarrow> py_error + bool list" where
  "get_edges_by_location_mask t condition partial =
     mapM (\<lambda>e. ebind (condition (get_points_by_edge t e)) (\<lambda>test. Inr (check partial test)))
       (Edges (topo_solid t))"

definition get_faces_by_location_mask ::
  "topo \<Rightarrow> (vec3 list \<Rightarrow> py_error + bool list) \<Rightarrow> bool \<Rightarrow> py_error + bool list" where
  "get_faces_by_location_mask t condition partial =
     mapM (\<lambda>f. ebind (condition (get_points_by_face t f)) (\<lambda>test. Inr (check partial test)))
       (Faces (topo_solid t))"

text \<open>
  Modelled from the spec: the adjacency masks of \<open>SvSolidTopology\<close>. Selecting elements
  of one kind selects the elements of another kind that are incident to at least one of
  them.
\<close>

definition get_edges_by_vertices_mask :: "solid \<Rightarrow> nat list \<Rightarrow> bool list" where
  "get_edges_by_vertices_mask s verts =
     map (\<lambda>e. list_ex (\<lambda>v. v \<in> set (edge_vertexes e)) verts) (Edges s)"

definition get_faces_by_vertices_mask :: "solid \<Rightarrow> nat list \<Rightarrow> bool list" where
  "get_faces_by_vertices_mask s verts =
     map (\<lambda>f. list_ex (\<lambda>v. v \<in> set (face_vertexes f)) verts) (Faces s)"

definition get_vertices_by_edges_mask :: "solid \<Rightarrow> nat list \<Rightarrow> bool list" where
  "get_vertices_by_edges_mask s edges =
     map (\<lambda>i. list_ex (\<lambda>e. i \<in> set (edge_vertexes (Edges s ! e))) edges) [0..<length (Vertexes s)]"

definition get_faces_by_edges_mask :: "solid \<Rightarrow> nat list \<Rightarrow> bool list" where
  "get_faces_by_edges_mask s edges =
     map (\<lambda>f. list_ex (\<lambda>e. e \<in> set (face_edges f)) edges) (Faces s)"

definition get_vertices_by_faces_mask :: "solid \<Rightarrow> nat list \<Rightarrow> bool list" where
  "get_vertices_by_faces_mask s faces =
     map (\<lambda>i. list_ex (\<lambda>f. i \<in> set (face_vertexes (Faces s ! f))) faces) [0..<length (Vertexes s)]"

definition get_edges_by_faces_mask :: "solid \<Rightarrow> nat list \<Rightarrow> bool list" where
  "get_edges_by_faces_mask s faces =
     map (\<lambda>i. list_ex (\<lambda>f. i \<in> set (face_edges (Faces s ! f))) faces) [0..<length (Edges s)]"

subsection \<open>The node\<close>

text \<open>
  The methods of the node, named as in the source without the leading underscore. The
  constant \<open>0.01\<close> of \<open>map_percent\<close> is written \<open>1 / 100\<close>, and the threshold is
  evaluated in exact arithmetic here; \<open>map_percent_fl\<close> below has the rounded evaluation
  as a parameter.
\<close>

definition map_percent :: "real list \<Rightarrow> real \<Rightarrow> py_error + real" where
  "map_percent values percent =
     ebind (py_max values) (\<lambda>maxv.
     ebind (py_min values) (\<lambda>minv.
       if maxv \<le> minv then Inr maxv
       else Inr (maxv - percent * (maxv - minv) * (1 / 100))))"

text \<open>
  \<open>points.dot(direction)\<close> for the array made of a list of points. An empty list makes
  an array of shape (0,), and its product with a vector of three components raises
  ValueError.
\<close>

definition np_dot :: "vec3 list \<Rightarrow> vec3 \<Rightarrow> py_error + real list" where
  "np_dot points direction =
     (if points = [] then Inl ValueError else Inr (map (\<lambda>p. vdot p direction) points))"

definition by_side :: "vec3 list \<Rightarrow> vec3 \<Rightarrow> real \<Rightarrow> py_error + bool list" where
  "by_side points direction percent =
     (let direction = vdiv direction (vnorm direction)
      in ebind (np_dot points direction) (\<lambda>values.
         ebind (map_percent values percent) (\<lambda>threshold.
           Inr (map (\<lambda>v. v > threshold) values))))"

definition verts_by_side :: "solid \<Rightarrow> vec3 \<Rightarrow> real \<Rightarrow> py_error + bool list" where
  "verts_by_side s direction percent = by_side (Vertexes s) direction percent"

definition verts_by_sphere :: "solid \<Rightarrow> vec3 \<Rightarrow> real \<Rightarrow> bool list" where
  "verts_by_sphere s center radius = get_vertices_within_range_mask s center radius"

definition verts_by_plane :: "geom \<Rightarrow> solid \<Rightarrow> vec3 \<Rightarrow> vec3 \<Rightarrow> real \<Rightarrow> bool list" where
  "verts_by_plane G s center direction radius =
     get_vertices_by_location_mask s (\<lambda>v. plane_distance G direction center v < radius)"

definition verts_by_cylinder :: "geom \<Rightarrow> solid \<Rightarrow> vec3 \<Rightarrow> vec3 \<Rightarrow> real \<Rightarrow> bool list" where
  "verts_by_cylinder G s center direction radius =
     get_vertices_by_location_mask s (\<lambda>v. line_distance G direction center v < radius)"

definition edges_by_side :: "select_node \<Rightarrow> topo \<Rightarrow> vec3 \<Rightarrow> real \<Rightarrow> py_error + bool list" where
  "edges_by_side node t direction percent =
     ebind (mapM (\<lambda>e. np_dot (get_points_by_edge t e) direction) (Edges (topo_solid t)))
       (\<lambda>values_per_edge.
          let all_values = concat values_per_edge
          in ebind (map_percent all_values percent) (\<lambda>threshold.
               Inr (map (\<lambda>values. check (include_partial node) (map (\<lambda>v. v > threshold) values))
                      values_per_edge)))"

text \<open>
  The nested function \<open>condition\<close> of \<open>_edges_by_sphere\<close> and \<open>_faces_by_sphere\<close>:
  squared distances to the centre against the squared radius. On the array of shape (0,)
  of an element without sample points, \<open>points - center\<close> raises ValueError.
\<close>

definition sphere_condition :: "vec3 \<Rightarrow> real \<Rightarrow> vec3 list \<Rightarrow> py_error + bool list" where
  "sphere_condition center radius points =
     (if points = [] then Inl ValueError
      else Inr (map (\<lambda>p. let dvs = vsub p center in vdot dvs dvs < radius * radius) points))"

text \<open>
  The conditions of the plane and cylinder criteria call the distance functions of the
  geometry library on the array of sample points.
\<close>

definition edges_by_sphere :: "select_node \<Rightarrow> topo \<Rightarrow> vec3 \<Rightarrow> real \<Rightarrow> py_error + bool list" where
  "edges_by_sphere node t center radius =
     get_edges_by_location_mask t (sphere_condition center radius) (include_partial node)"

definition edges_by_plane ::
  "geom \<Rightarrow> select_node \<Rightarrow> topo \<Rightarrow> vec3 \<Rightarrow> vec3 \<Rightarrow> real \<Rightarrow> py_error + bool list" where
  "edges_by_plane G node t center direction radius =
     get_edges_by_location_mask t
       (\<lambda>points. Inr (map (\<lambda>p. plane_distance G direction center p < radius) points))
       (include_partial node)"

definition edges_by_cylinder ::
  "geom \<Rightarrow> select_node \<Rightarrow> topo \<Rightarrow> vec3 \<Rightarrow> vec3 \<Rightarrow> real \<Rightarrow> py_error + bool list" where
  "edges_by_cylinder G node t center direction radius =
     get_edges_by_location_mask t
       (\<lambda>points. Inr (map (\<lambda>p. line_distance G direction center p < radius) points))
       (include_partial node)"

definition edges_by_direction :: "geom \<Rightarrow> topo \<Rightarrow> vec3 \<Rightarrow> real \<Rightarrow> py_error + bool list" where
  "edges_by_direction G t direction percent =
     (let values = map (\<lambda>e. \<bar>vdot direction (line_direction G (get_points_by_edge t e))\<bar>)
                     (Edges (topo_solid t))
      in ebind (map_percent values percent) (\<lambda>threshold.
           Inr (map (\<lambda>v. v > threshold) values)))"

definition faces_by_side :: "select_node \<Rightarrow> topo \<Rightarrow> vec3 \<Rightarrow> real \<Rightarrow> py_error + bool list" where
  "faces_by_side node t direction percent =
     ebind (mapM (\<lambda>f. np_dot (get_points_by_face t f) direction) (Faces (topo_solid t)))
       (\<lambda>values_per_face.
          let all_values = concat values_per_face
          in ebind (map_percent all_values percent) (\<lambda>threshold.
               Inr (map (\<lambda>values. check (include_partial node) (map (\<lambda>v. v > threshold) values))
                      values_per_face)))"

definition faces_by_normal :: "geom \<Rightarrow> topo \<Rightarrow> vec3 \<Rightarrow> real \<Rightarrow> py_error + bool list" where
  "faces_by_normal G t direction percent =
     (let values = map (\<lambda>f. vdot direction (plane_normal G (get_points_by_face t f)))
                     (Faces (topo_solid t))
      in ebind (map_percent values percent) (\<lambda>threshold.
           Inr (map (\<lambda>v. v > threshold) values)))"

definition faces_by_sphere :: "select_node \<Rightarrow> topo \<Rightarrow> vec3 \<Rightarrow> real \<Rightarrow> py_error + bool list" where
  "faces_by_sphere node t center radius =
     get_faces_by_location_mask t (sphere_condition center radius) (include_partial node)"

definition faces_by_plane ::
  "geom \<Rightarrow> select_node \<Rightarrow> topo \<Rightarrow> vec3 \<Rightarrow> vec3 \<Rightarrow> real \<Rightarrow> py_error + bool list" where
  "faces_by_plane G node t center direction radius =
     get_faces_by_location_mask t
       (\<lambda>points. Inr (map (\<lambda>p. plane_distance G direction center p < radius) points))
       (include_partial node)"

definition faces_by_cylinder ::
  "geom \<Rightarrow> select_node \<Rightarrow> topo \<Rightarrow> vec3 \<Rightarrow> vec3 \<Rightarrow> real \<Rightarrow> py_error + bool list" where
  "faces_by_cylinder G node t center direction radius =
     get_faces_by_location_mask t
       (\<lambda>points. Inr (map (\<lambda>p. line_distance G direction center p < radius) points))
       (include_partial node)"

text \<open>\<open>[v for c, v in zip(mask, elements) if c]\<close>, with the elements as indices.\<close>

definition selected :: "bool list \<Rightarrow> nat \<Rightarrow> nat list" where
  "selected flags n = map snd (filter fst (zip flags [0..<n]))"

definition calc_mask ::
  "geom \<Rightarrow> select_node \<Rightarrow> solid \<Rightarrow> real \<Rightarrow> vec3 \<Rightarrow> vec3 \<Rightarrow> real \<Rightarrow> real
     \<Rightarrow> py_error + (bool list \<times> bool list \<times> bool list)" where
  "calc_mask G node s precision direction center percent radius =
     (if element_type node = VERTS then
        ebind
          (if criteria_type node = SIDE then verts_by_side s direction percent
           else if criteria_type node = SPHERE then Inr (verts_by_sphere s center radius)
           else if criteria_type node = PLANE then Inr (verts_by_plane G s center direction radius)
           else if criteria_type node = CYLINDER then Inr (verts_by_cylinder G s center direction radius)
           else Inl (Exception ''Unknown criteria for vertices''))
          (\<lambda>vertex_mask.
             let verts = selected vertex_mask (length (Vertexes s));
                 edge_mask = get_edges_by_vertices_mask s verts;
                 face_mask = get_faces_by_vertices_mask s verts
             in Inr (vertex_mask, edge_mask, face_mask))
      else if element_type node = EDGES then
        (let t = tessellate s precision
         in ebind
           (if criteria_type node = SIDE then edges_by_side node t direction percent
            else if criteria_type node = SPHERE then edges_by_sphere node t center radius
            else if criteria_type node = PLANE then edges_by_plane G node t center direction radius
            else if criteria_type node = CYLINDER then edges_by_cylinder G node t center direction radius
            else if criteria_type node = DIRECTION then edges_by_direction G t direction percent
            else Inl (Exception ''Unknown criteria for edges''))
           (\<lambda>edge_mask.
              let edges = selected edge_mask (length (Edges s));
                  vertex_mask = get_vertices_by_edges_mask s edges;
                  face_mask = get_faces_by_edges_mask s edges
              in Inr (vertex_mask, edge_mask, face_mask)))
      else
        (let t = tessellate s precision
         in ebind
           (if criteria_type node = SIDE then faces_by_side node t direction percent
            else if criteria_type node = NORMAL then faces_by_normal G t direction percent
            else if criteria_type node = SPHERE then faces_by_sphere node t center radius
            else if criteria_type node = PLANE then faces_by_plane G node t center direction radius
            else if criteria_type node = CYLINDER then faces_by_cylinder G node t center direction radius
            else Inl (Exception ''Unknown criteria type for faces''))
           (\<lambda>face_mask.
              let faces = selected face_mask (length (Faces s));
                  vertex_mask = get_vertices_by_faces_mask s faces;
                  edge_mask = get_edges_by_faces_mask s faces
              in Inr (vertex_mask, edge_mask, face_mask))))"

subsection \<open>The by-side methods with the floating-point evaluation as a parameter\<close>

text \<open>
  The source evaluates the threshold \<open>maxv - percent * (maxv - minv) * 0.01\<close>, the
  products \<open>points.dot(direction)\<close> and the normalisation of the direction in double
  precision, and the result of the first depends on rounding when percent is not 0.
  Here \<open>map_percent\<close> and the by-side methods are given once more with these three
  evaluations as parameters: \<open>fl_threshold A maxv minv percent\<close> is the double that the
  source obtains for the threshold expression, \<open>fl_dot\<close> the computed product and
  \<open>fl_unit\<close> the computed unit direction. Maximum, minimum and comparisons are exact on
  doubles. The definitions above are the instance \<open>exact_arith\<close>.
\<close>

record fl_arith =
  fl_threshold :: "real \<Rightarrow> real \<Rightarrow> real \<Rightarrow> real"
  fl_dot :: "vec3 \<Rightarrow> vec3 \<Rightarrow> real"
  fl_unit :: "vec3 \<Rightarrow> vec3"

definition exact_threshold :: "real \<Rightarrow> real \<Rightarrow> real \<Rightarrow> real" where
  "exact_threshold maxv minv percent = maxv - percent * (maxv - minv) * (1 / 100)"

definition exact_arith :: fl_arith where
  "exact_arith =
     \<lparr>fl_threshold = exact_threshold, fl_dot = vdot, fl_unit = (\<lambda>d. vdiv d (vnorm d))\<rparr>"

definition map_percent_fl :: "fl_arith \<Rightarrow> real list \<Rightarrow> real \<Rightarrow> py_error + real" where
  "map_percent_fl A values percent =
     ebind (py_max values) (\<lambda>maxv.
     ebind (py_min values) (\<lambda>minv.
       if maxv \<le> minv then Inr maxv
       else Inr (fl_threshold A maxv minv percent)))"

definition np_dot_fl :: "fl_arith \<Rightarrow> vec3 list \<Rightarrow> vec3 \<Rightarrow> py_error + real list" where
  "np_dot_fl A points direction =
     (if points = [] then Inl ValueError else Inr (map (\<lambda>p. fl_dot A p direction) points))"

definition by_side_fl :: "fl_arith \<Rightarrow> vec3 list \<Rightarrow> vec3 \<Rightarrow> real \<Rightarrow> py_error + bool list" where
  "by_side_fl A points direction percent =
     (let direction = fl_unit A direction
      in ebind (np_dot_fl A points direction) (\<lambda>values.
         ebind (map_percent_fl A values percent) (\<lambda>threshold.
           Inr (map (\<lambda>v. v > threshold) values))))"

definition verts_by_side_fl :: "fl_arith \<Rightarrow> solid \<Rightarrow> vec3 \<Rightarrow> real \<Rightarrow> py_error + bool list" where
  "verts_by_side_fl A s direction percent = by_side_fl A (Vertexes s) direction percent"

definition edges_by_side_fl ::
  "fl_arith \<Rightarrow> select_node \<Rightarrow> topo \<Rightarrow> vec3 \<Rightarrow> real \<Rightarrow> py_error + bool list" where
  "edges_by_side_fl A node t direction percent =
     ebind (mapM (\<lambda>e. np_dot_fl A (get_points_by_edge t e) direction) (Edges (topo_solid t)))
       (\<lambda>values_per_edge.
          let all_values = concat values_per_edge
          in ebind (map_percent_fl A all_values percent) (\<lambda>threshold.
               Inr (map (\<lambda>values. check (include_partial node) (map (\<lambda>v. v > threshold) values))
                      values_per_edge)))"

definition faces_by_side_fl ::
  "fl_arith \<Rightarrow> select_node \<Rightarrow> topo \<Rightarrow> vec3 \<Rightarrow> real \<Rightarrow> py_error + bool list" where
  "faces_by_side_fl A node t direction percent =
     ebind (mapM (\<lambda>f. np_dot_fl A (get_points_by_face t f) direction) (Faces (topo_solid t)))
       (\<lambda>values_per_face.
          let all_values = concat values_per_face
          in ebind (map_percent_fl A all_values percent) (\<lambda>threshold.
               Inr (map (\<lambda>values. check (include_partial node) (map (\<lambda>v. v > threshold) values))
                      values_per_face)))"

subsection \<open>The quantities the description of the selection speaks of\<close>

text \<open>
  All sampled values of a category: the projections of the sample points of every edge,
  of every face, and of the vertices (on the normalised direction, as \<open>_by_side\<close> does).
  A category is sampled when it has an element and each of its elements has a sample
  point.
\<close>

definition edges_sampled :: "topo \<Rightarrow> bool" where
  "edges_sampled t =
     (Edges (topo_solid t) \<noteq> []
      \<and> list_all (\<lambda>e. get_points_by_edge t e \<noteq> []) (Edges (topo_solid t)))"

definition faces_sampled :: "topo \<Rightarrow> bool" where
  "faces_sampled t =
     (Faces (topo_solid t) \<noteq> []
      \<and> list_all (\<lambda>f. get_points_by_face t f \<noteq> []) (Faces (topo_solid t)))"

definition edge_values :: "topo \<Rightarrow> vec3 \<Rightarrow> real list" where
  "edge_values t direction =
     concat (map (\<lambda>e. map (\<lambda>p. vdot p direction) (get_points_by_edge t e)) (Edges (topo_solid t)))"

definition face_values :: "topo \<Rightarrow> vec3 \<Rightarrow> real list" where
  "face_values t direction =
     concat (map (\<lambda>f. map (\<lambda>p. vdot p direction) (get_points_by_face t f)) (Faces (topo_solid t)))"

definition vertex_values :: "solid \<Rightarrow> vec3 \<Rightarrow> real list" where
  "vertex_values s direction =
     map (\<lambda>p. vdot p (vdiv direction (vnorm direction))) (Vertexes s)"






text \<open>
  One mask is below another when they are aligned and every element selected in the
  first is selected in the second.
\<close>

definition mask_le :: "bool list \<Rightarrow> bool list \<Rightarrow> bool" where
  "mask_le a b = (length a = length b \<and> (\<forall>i<length a. a ! i \<longrightarrow> b ! i))"

text \<open>
  A derived mask of \<open>n\<close> elements marks exactly the elements incident to at least one
  selected element of the primary mask of \<open>m\<close> elements.
\<close>

definition derived_exactly ::
  "bool list \<Rightarrow> nat \<Rightarrow> bool list \<Rightarrow> nat \<Rightarrow> (nat \<Rightarrow> nat \<Rightarrow> bool) \<Rightarrow> bool" where
  "derived_exactly derived n primary m incident =
     (length derived = n \<and> length primary = m
      \<and> (\<forall>i<n. derived ! i \<longleftrightarrow> (\<exists>j<m. primary ! j \<and> incident i j)))"

text \<open>
  The sphere criterion on edges or on faces subtracts the centre from the array of sample
  points of each element, which needs every element of the category to have a sample
  point.
\<close>

definition sphere_sampled :: "select_node \<Rightarrow> solid \<Rightarrow> real \<Rightarrow> bool" where
  "sphere_sampled node s precision =
     ((criteria_type node = SPHERE \<and> element_type node = EDGES
         \<longrightarrow> list_all (\<lambda>e. edge_points e precision \<noteq> []) (Edges s))
      \<and> (criteria_type node = SPHERE \<and> element_type node = FACES
         \<longrightarrow> list_all (\<lambda>f. face_points f precision \<noteq> []) (Faces s)))"

subsection \<open>Inputs for the examples\<close>

text \<open>
  A geometry library for the examples: the distance to a plane and to a line for a
  direction of length one, the direction of an edge from its first to its last sample
  point, and the normal +Z for faces parallel to the xy plane. The solids are a
  tetrahedron and a flat plate; their sample points are their
  vertices at every precision.
\<close>

fun vcross :: "vec3 \<Rightarrow> vec3 \<Rightarrow> vec3" where
  "vcross (a, b, c) (x, y, z) = (b * z - c * y, c * x - a * z, a * y - b * x)"

definition example_geom :: geom where
  "example_geom =
     \<lparr>plane_distance = (\<lambda>d c p. \<bar>vdot d (vsub p c)\<bar>),
      line_distance = (\<lambda>d c p. vnorm (vcross d (vsub p c))),
      line_direction = (\<lambda>pts. case pts of [] \<Rightarrow> (0, 0, 0) | p # r \<Rightarrow> vsub (last pts) p),
      plane_normal = (\<lambda>pts. (0, 0, 1))\<rparr>"

definition tetra_points :: "nat list \<Rightarrow> vec3 list" where
  "tetra_points is = map (\<lambda>i. [(0, 0, 0), (1, 0, 0), (0, 1, 0), (0, 0, 1)] ! i) is"

definition tetra_edge :: "nat list \<Rightarrow> edge" where
  "tetra_edge vs = \<lparr>edge_vertexes = vs, edge_points = (\<lambda>precision. tetra_points vs)\<rparr>"

definition tetra_face :: "nat list \<Rightarrow> nat list \<Rightarrow> face" where
  "tetra_face vs es =
     \<lparr>face_vertexes = vs, face_edges = es, face_points = (\<lambda>precision. tetra_points vs)\<rparr>"

definition tetrahedron :: solid where
  "tetrahedron =
     \<lparr>Vertexes = [(0, 0, 0), (1, 0, 0), (0, 1, 0), (0, 0, 1)],
      Edges = [tetra_edge [0, 1], tetra_edge [0, 2], tetra_edge [0, 3],
               tetra_edge [1, 2], tetra_edge [1, 3], tetra_edge [2, 3]],
      Faces = [tetra_face [0, 1, 2] [0, 1, 3], tetra_face [0, 1, 3] [0, 2, 4],
               tetra_face [0, 2, 3] [1, 2, 5], tetra_face [1, 2, 3] [3, 4, 5]]\<rparr>"

definition strict_node :: "element_kind \<Rightarrow> criterion \<Rightarrow> select_node" where
  "strict_node k c = \<lparr>element_type = k, criteria_type = c, include_partial = False\<rparr>"

definition partial_node :: "element_kind \<Rightarrow> criterion \<Rightarrow> select_node" where
  "partial_node k c = \<lparr>element_type = k, criteria_type = c, include_partial = True\<rparr>"

definition plate_points :: "nat list \<Rightarrow> vec3 list" where
  "plate_points is = map (\<lambda>i. [(0, 0, 1), (1, 0, 1), (1, 1, 1), (0, 1, 1)] ! i) is"

definition plate_edge :: "nat list \<Rightarrow> edge" where
  "plate_edge vs = \<lparr>edge_vertexes = vs, edge_points = (\<lambda>precision. plate_points vs)\<rparr>"

definition plate_face :: "nat list \<Rightarrow> nat list \<Rightarrow> face" where
  "plate_face vs es =
     \<lparr>face_vertexes = vs, face_edges = es, face_points = (\<lambda>precision. plate_points vs)\<rparr>"

definition plate :: solid where
  "plate =
     \<lparr>Vertexes = [(0, 0, 1), (1, 0, 1), (1, 1, 1), (0, 1, 1)],
      Edges = [plate_edge [0, 1], plate_edge [1, 2], plate_edge [2, 3], plate_edge [3, 0]],
      Faces = [plate_face [0, 1, 2, 3] [0, 1, 2, 3], plate_face [3, 2, 1, 0] [3, 2, 1, 0]]\<rparr>"

text \<open>
  Two edges at the heights 0 and 7/10, and an arithmetic whose threshold comes out
  \<open>1 / 2 ^ 53\<close> below the exact value, as the doubles do for these two heights at
  percent = 100.
\<close>

definition step_edge :: "real \<Rightarrow> nat list \<Rightarrow> edge" where
  "step_edge h vs = \<lparr>edge_vertexes = vs, edge_points = (\<lambda>precision. [(0, 0, h), (1, 0, h)])\<rparr>"

definition step :: solid where
  "step =
     \<lparr>Vertexes = [(0, 0, 0), (1, 0, 0), (0, 0, 7/10), (1, 0, 7/10)],
      Edges = [step_edge 0 [0, 1], step_edge (7/10) [2, 3]],
      Faces = []\<rparr>"


section \<open>Vector math (nodes/vertex/math\_mk2.py)\<close>

text \<open>
  Socket data: a number, or a list or tuple of socket data. A vector is a list of three
  numbers.
\<close>

datatype sv = F real | L "sv list"

text \<open>An entry of \<open>func_dict\<close> is a lambda of one or of two arguments.\<close>

datatype pyfun = Fun1 "sv \<Rightarrow> py_error + sv" | Fun2 "sv \<Rightarrow> sv \<Rightarrow> py_error + sv"

text \<open>Calling a lambda with the wrong number of arguments raises TypeError.\<close>

fun call1 :: "pyfun \<Rightarrow> sv \<Rightarrow> py_error + sv" where
  "call1 (Fun1 f) x = f x"
| "call1 (Fun2 f) x = Inl TypeError"

fun call2 :: "pyfun \<Rightarrow> sv \<Rightarrow> sv \<Rightarrow> py_error + sv" where
  "call2 (Fun2 f) x y = f x y"
| "call2 (Fun1 f) x y = Inl TypeError"

text \<open>
  \<open>u[i]\<close> for a non-negative literal index, \<open>l[-1]\<close> and \<open>a / b\<close>. Subscripting a
  number, like taking its \<open>len\<close> or iterating over it, raises TypeError.
\<close>

fun getitem :: "sv \<Rightarrow> nat \<Rightarrow> py_error + sv" where
  "getitem (L xs) i = (if i < length xs then Inr (xs ! i) else Inl IndexError)"
| "getitem (F x) i = Inl TypeError"

fun get_last :: "sv \<Rightarrow> py_error + sv" where
  "get_last (L xs) = (if xs = [] then Inl IndexError else Inr (last xs))"
| "get_last (F x) = Inl TypeError"

text \<open>
  \<open>a / b\<close> on socket data. The numbers are Python floats: the OverflowError of the
  division of two integers too large for a float is not modelled. A list operand raises
  TypeError.
\<close>

fun py_truediv :: "sv \<Rightarrow> sv \<Rightarrow> py_error + sv" where
  "py_truediv (F a) (F b) = (if b = 0 then Inl ZeroDivisionError else Inr (F (a / b)))"
| "py_truediv (L xs) b = Inl TypeError"
| "py_truediv a (L ys) = Inl TypeError"

text \<open>\<open>func_dict["1/SCALAR"]\<close>: \<open>lambda u, s: (u[0]/s, u[1]/s, u[2]/s)\<close>.\<close>

definition one_over_scalar :: "sv \<Rightarrow> sv \<Rightarrow> py_error + sv" where
  "one_over_scalar u s =
     ebind (getitem u 0) (\<lambda>u0. ebind (py_truediv u0 s) (\<lambda>a.
     ebind (getitem u 1) (\<lambda>u1. ebind (py_truediv u1 s) (\<lambda>b.
     ebind (getitem u 2) (\<lambda>u2. ebind (py_truediv u2 s) (\<lambda>c.
       Inr (L [a, b, c])))))))"

text \<open>\<open>recurse_fx\<close>: the list comprehension over \<open>l\<close> is the second function.\<close>

fun recurse_fx :: "sv \<Rightarrow> pyfun \<Rightarrow> int \<Rightarrow> py_error + sv"
  and recurse_fx_items :: "sv list \<Rightarrow> pyfun \<Rightarrow> int \<Rightarrow> py_error + sv list" where
  "recurse_fx (F x) f leve = (if leve = 0 then call1 f (F x) else Inl TypeError)"
| "recurse_fx (L xs) f leve =
     (if leve = 0 then call1 f (L xs)
      else (case recurse_fx_items xs f (leve - 1) of Inl e \<Rightarrow> Inl e | Inr t \<Rightarrow> Inr (L t)))"
| "recurse_fx_items [] f leve = Inr []"
| "recurse_fx_items (i # l) f leve =
     (case recurse_fx i f leve of Inl e \<Rightarrow> Inl e
      | Inr y \<Rightarrow> (case recurse_fx_items l f leve of Inl e \<Rightarrow> Inl e | Inr ys \<Rightarrow> Inr (y # ys)))"

text \<open>\<open>itertools.zip_longest(l1, l2, fillvalue=fl)\<close>.\<close>

fun zip_longest :: "'a list \<Rightarrow> 'a list \<Rightarrow> 'a \<Rightarrow> ('a \<times> 'a) list" where
  "zip_longest [] [] fl = []"
| "zip_longest (x # xs) [] fl = (x, fl) # zip_longest xs [] fl"
| "zip_longest [] (y # ys) fl = (fl, y) # zip_longest [] ys fl"
| "zip_longest (x # xs) (y # ys) fl = (x, y) # zip_longest xs ys fl"

text \<open>
  \<open>recurse_fxy\<close> descends into the elements of its two lists: every pair that
  \<open>zip_longest\<close> yields consists of elements of the lists, since the fill value is the
  last element of the shorter one. These facts give its termination.
\<close>

lemma mapM_cong [fundef_cong]:
  "xs = ys \<Longrightarrow> (\<And>x. x \<in> set ys \<Longrightarrow> f x = g x) \<Longrightarrow> mapM f xs = mapM g ys"
proof -
  assume eq: "xs = ys" and fg: "\<And>x. x \<in> set ys \<Longrightarrow> f x = g x"
  from fg have "mapM f ys = mapM g ys"
    by (induction ys) (simp_all cong: sum.case_cong)
  with eq show ?thesis by simp
qed

lemma ebind_cong [fundef_cong]:
  "m = m' \<Longrightarrow> (\<And>x. m' = Inr x \<Longrightarrow> f x = g x) \<Longrightarrow> ebind m f = ebind m' g"
  by (cases m') (simp_all add: ebind_def)

lemma zip_longest_fst: "(u, v) \<in> set (zip_longest xs ys fl) \<Longrightarrow> u \<in> set xs \<or> (u = fl \<and> length xs < length ys)"
  by (induction xs ys fl rule: zip_longest.induct) auto

lemma zip_longest_snd: "(u, v) \<in> set (zip_longest xs ys fl) \<Longrightarrow> v \<in> set ys \<or> (v = fl \<and> length ys < length xs)"
  by (induction xs ys fl rule: zip_longest.induct) auto

lemma size_sv_member: "x \<in> set xs \<Longrightarrow> size x < size (L xs)"
  by (induction xs) auto

function recurse_fxy :: "sv \<Rightarrow> sv \<Rightarrow> pyfun \<Rightarrow> int \<Rightarrow> py_error + sv" where
  "recurse_fxy (L l1) (L l2) f leve =
     ebind (if length l1 > length l2 then get_last (L l2) else get_last (L l1)) (\<lambda>fl.
       if leve = 1 then
         ebind (mapM (\<lambda>(u, v). call2 f u v) (zip_longest l1 l2 fl)) (\<lambda>res. Inr (L res))
       else
         ebind (mapM (\<lambda>(u, v). recurse_fxy u v f (leve - 1)) (zip_longest l1 l2 fl))
           (\<lambda>res. Inr (L res)))"
| "recurse_fxy (F x) l2 f leve = Inl TypeError"
| "recurse_fxy (L l1) (F y) f leve = Inl TypeError"
  by pat_completeness auto
termination
proof (relation "measure (\<lambda>(l1, l2, f, leve). size l1 + size l2)", goal_cases)
  case 1
  show ?case by simp
next
  case (2 l1 l2 f leve fl p u v)
  from 2(1) have fl1: "length l2 < length l1 \<Longrightarrow> fl \<in> set l2"
    and fl2: "\<not> length l2 < length l1 \<Longrightarrow> fl \<in> set l1"
    by (auto split: if_splits)
  from 2(3,4) have mem: "(u, v) \<in> set (zip_longest l1 l2 fl)"
    by simp
  from zip_longest_fst[OF mem] fl2 have "u \<in> set l1"
    by auto
  moreover from zip_longest_snd[OF mem] fl1 have "v \<in> set l2"
    by auto
  ultimately have "size u < size (L l1)" "size v < size (L l2)"
    by (simp_all only: size_sv_member)
  then show ?case by simp
qed


text \<open>
  \<open>process\<close>. The function looked up in \<open>func_dict\<close>, the link state of the output
  socket, the number of input sockets, the data of the two inputs and the nesting level
  that \<open>levelsOflist\<close> returns for the first input are given. Nothing is emitted when
  the output is not linked. The bare \<open>except: pass\<close> keeps the initial \<open>[[]]\<close>.
\<close>

definition process :: "pyfun \<Rightarrow> bool \<Rightarrow> nat \<Rightarrow> sv \<Rightarrow> sv \<Rightarrow> int \<Rightarrow> sv option" where
  "process func is_linked num_inputs input_one input_two leve =
     (if \<not> is_linked then None
      else
        let result = L [L []]
        in Some
          (if num_inputs = 1 then
             (case recurse_fx input_one func (leve - 1) of Inr r \<Rightarrow> r | Inl e \<Rightarrow> result)
           else if num_inputs = 2 then
             (case recurse_fxy input_one input_two func (leve - 1) of Inr r \<Rightarrow> r | Inl e \<Rightarrow> result)
           else result))"

definition vectors_in :: sv where
  "vectors_in = L [L [L [F 1, F 2, F 3], L [F 4, F 5, F 6]]]"

definition scalars_in :: sv where
  "scalars_in = L [L [F 2, F 0]]"

section \<open>Properties of the bend kernel\<close>

lemma ebind_Inr [simp]: "ebind (Inr x) f = f x"
  by (simp add: ebind_def)

lemma ebind_Inl [simp]: "ebind (Inl e) f = Inl e"
  by (simp add: ebind_def)

lemma fold_min_Min: "fold min xs (x::real) = Min (set (x # xs))"
  by (rule Min.set_eq_fold[symmetric])

lemma fold_max_Max: "fold max xs (x::real) = Max (set (x # xs))"
  by (rule Max.set_eq_fold[symmetric])

lemma py_min_Min: "xs \<noteq> [] \<Longrightarrow> py_min xs = Inr (Min (set xs))"
  by (cases xs) (simp_all add: py_min_def fold_min_Min del: set_simps)

lemma py_max_Max: "xs \<noteq> [] \<Longrightarrow> py_max xs = Inr (Max (set xs))"
  by (cases xs) (simp_all add: py_max_def fold_max_Max del: set_simps)

lemma mapM_total: "(\<And>x. x \<in> set xs \<Longrightarrow> f x = Inr (g x)) \<Longrightarrow> mapM f xs = Inr (map g xs)"
  by (induction xs) simp_all

lemma mapM_fails:
  "\<exists>x\<in>set xs. f x = Inl e \<Longrightarrow> (\<And>x e'. x \<in> set xs \<Longrightarrow> f x = Inl e' \<Longrightarrow> e' = e)
     \<Longrightarrow> mapM f xs = Inl e"
proof (induction xs)
  case Nil
  then show ?case by simp
next
  case (Cons a xs)
  show ?case
  proof (cases "f a")
    case (Inl e')
    with Cons.prems(2)[of a e'] show ?thesis by simp
  next
    case (Inr y)
    with Cons.prems(1) have ex: "\<exists>x\<in>set xs. f x = Inl e" by auto
    have "mapM f xs = Inl e"
      by (rule Cons.IH[OF ex]) (use Cons.prems(2) in auto)
    with Inr show ?thesis by simp
  qed
qed

lemma mapM_length: "mapM f xs = Inr ys \<Longrightarrow> length ys = length xs"
  by (induction xs arbitrary: ys) (auto split: sum.splits)

lemma grid_extent_nonneg: "concat g \<noteq> [] \<Longrightarrow> 0 \<le> grid_extent i g"
  by (simp add: grid_extent_def grid_min_def grid_max_def Min_le_iff)

lemma get_uv_valid:
  assumes "nondegenerate node vertices" and "get_other_axes node = (ui, vi)"
  shows "get_uv node vertices =
           Inr (grid_extent ui vertices, grid_extent vi vertices,
                map (map (normalized_uv node vertices)) vertices)"
proof -
  from assms have ne: "concat vertices \<noteq> []"
    and eu: "grid_extent ui vertices \<noteq> 0" and ev: "grid_extent vi vertices \<noteq> 0"
    by (simp_all add: nondegenerate_def)
  let ?f = "\<lambda>vertex.
      ebind (py_div (nth3 vertex ui - grid_min ui vertices) (grid_extent ui vertices)) (\<lambda>u.
      ebind (py_div (nth3 vertex vi - grid_min vi vertices) (grid_extent vi vertices)) (\<lambda>v.
        Inr (u, v)))"
  have inner: "?f vertex = Inr (normalized_uv node vertices vertex)" for vertex
    using eu ev assms(2) by (simp add: py_div_def normalized_uv_def)
  have rows: "mapM ?f col = Inr (map (normalized_uv node vertices) col)" for col
    by (rule mapM_total) (rule inner)
  have grid: "mapM (mapM ?f) vertices = Inr (map (map (normalized_uv node vertices)) vertices)"
    by (rule mapM_total) (rule rows)
  from ne have mins: "py_min (map (\<lambda>p. nth3 p i) (concat vertices)) = Inr (grid_min i vertices)"
    and maxs: "py_max (map (\<lambda>p. nth3 p i) (concat vertices)) = Inr (grid_max i vertices)" for i
    by (simp_all add: py_min_Min py_max_Max grid_min_def grid_max_def)
  show ?thesis
    unfolding get_uv_def assms(2)
    by (simp add: mins maxs Let_def grid[unfolded grid_extent_def] grid_extent_def)
qed



lemma get_uv_empty:
  assumes "concat vertices = []"
  shows "get_uv node vertices = Inl ValueError"
proof -
  have "py_min (map (\<lambda>p. nth3 p i) (concat vertices)) = Inl ValueError" for i
    unfolding assms by (simp add: py_min_def)
  then show ?thesis
    by (simp add: get_uv_def Let_def split: prod.splits)
qed

lemma diameter_extent:
  "concat surface \<noteq> [] \<Longrightarrow> diameter (concat surface) i = Inr (grid_extent i surface)"
  by (simp add: diameter_def Let_def py_min_Min py_max_Max grid_extent_def grid_min_def grid_max_def)

lemma scale_factor_valid:
  assumes "nondegenerate node vertices" and "get_other_axes node = (ui, vi)"
    and "autoscale node \<longrightarrow> concat surface \<noteq> []"
  shows "scale_factor node surface (grid_extent ui vertices) (grid_extent vi vertices)
           = Inr (displacement_scale node vertices surface)"
proof (cases "autoscale node")
  case False
  then show ?thesis by (simp add: scale_factor_def displacement_scale_def)
next
  case True
  with assms(3) have ne: "concat surface \<noteq> []" by simp
  from assms(1,2) have nev: "concat vertices \<noteq> []"
    and eu: "grid_extent ui vertices \<noteq> 0" and ev: "grid_extent vi vertices \<noteq> 0"
    by (simp_all add: nondegenerate_def)
  have "0 \<le> (grid_extent ui surface / grid_extent ui vertices)
                 * (grid_extent vi surface / grid_extent vi vertices)"
    using grid_extent_nonneg[OF ne] grid_extent_nonneg[OF nev] by simp
  then show ?thesis
    using True eu ev
    by (simp add: scale_factor_def displacement_scale_def assms(2) Let_def
        diameter_extent[OF ne] py_div_def py_sqrt_def)
qed

lemma bend_valid:
  assumes "build_spline Spline2D node surface = Inr spline"
    and "nondegenerate node vertices"
    and "autoscale node \<longrightarrow> concat surface \<noteq> []"
  shows "bend Spline2D node vertices surface =
     Inr (map (map (\<lambda>p. new_vertex node spline (displacement_scale node vertices surface)
                         (normalized_uv node vertices p, p))) vertices)"
proof -
  obtain ui vi where ax: "get_other_axes node = (ui, vi)"
    by (cases "get_other_axes node")
  have zip_row: "map f (zip (map g row) row) = map (\<lambda>p. f (g p, p)) row"
    for f :: "(real \<times> real) \<times> vec3 \<Rightarrow> vec3" and g row
    by (induction row) simp_all
  have zip_grid: "map (\<lambda>(uv_row, vertices_row). map f (zip uv_row vertices_row))
                    (zip (map (map g) grid) grid) = map (map (\<lambda>p. f (g p, p))) grid"
    for f :: "(real \<times> real) \<times> vec3 \<Rightarrow> vec3" and g grid
    by (induction grid) (simp_all add: zip_row)
  show ?thesis
    by (simp add: bend_def assms(1) get_uv_valid[OF assms(2) ax]
        scale_factor_valid[OF assms(2) ax assms(3)] zip_grid)
qed












text \<open>
  Claim C2. On every such valid source grid the kernel returns a grid with as many rows
  as the source grid, each row as long as the source row.
\<close>

theorem bend_preserves_shape:
  assumes "build_spline Spline2D node surface = Inr spline"
    and "nondegenerate node vertices"
    and "autoscale node \<longrightarrow> concat surface \<noteq> []"
  shows "\<exists>out. bend Spline2D node vertices surface = Inr out \<and>
           length out = length vertices \<and> map length out = map length vertices"
  by (simp add: bend_valid[OF assms] comp_def)


lemma nondegenerate_unit_square_z: "nondegenerate node_z unit_square_grid"
  by (simp add: nondegenerate_def node_z_def get_other_axes_def unit_square_grid_def
      grid_extent_def grid_min_def grid_max_def)

text \<open>The shape of the result for the 2 by 2 grid.\<close>

theorem bend_preserves_shape_witness:
  "build_spline flat_Spline2D node_z flat_surface = Inr flat_spline
   \<and> nondegenerate node_z unit_square_grid
   \<and> \<not> autoscale node_z
   \<and> (\<exists>out. bend flat_Spline2D node_z unit_square_grid flat_surface = Inr out
          \<and> length out = 2 \<and> map length out = [2, 2])"
proof -
  have b: "build_spline flat_Spline2D node_z flat_surface = Inr flat_spline"
    by (simp add: build_spline_def flat_Spline2D_def)
  have s: "autoscale node_z \<longrightarrow> concat flat_surface \<noteq> []"
    by (simp add: node_z_def)
  have "length unit_square_grid = 2" "map length unit_square_grid = [2, 2]"
    by (simp_all add: unit_square_grid_def)
  moreover have "\<not> autoscale node_z"
    by (simp add: node_z_def)
  ultimately show ?thesis
    using bend_preserves_shape[OF b nondegenerate_unit_square_z s] b nondegenerate_unit_square_z
    by simp
qed







section \<open>Properties of the selection of solid elements\<close>

lemma map_percent_empty: "map_percent [] percent = Inl ValueError"
  by (simp add: map_percent_def py_max_def)

lemma map_percent_zero: "vs \<noteq> [] \<Longrightarrow> map_percent vs 0 = Inr (Max (set vs))"
  by (simp add: map_percent_def py_max_Max py_min_Min)

lemma map_percent_hundred:
  assumes "vs \<noteq> []"
  shows "map_percent vs 100 = Inr (Min (set vs))"
proof -
  let ?M = "Max (set vs)" and ?m = "Min (set vs)"
  have le: "?m \<le> ?M"
    using assms by (simp add: Min_le_iff)
  have "map_percent vs 100 = (if ?M \<le> ?m then Inr ?M else Inr (?M - 100 * (?M - ?m) * (1 / 100)))"
    by (simp only: map_percent_def py_max_Max[OF assms] py_min_Min[OF assms] ebind_Inr)
  also have "\<dots> = Inr ?m"
  proof (cases "?M \<le> ?m")
    case True
    with le show ?thesis by simp
  next
    case False
    have "a - 100 * (a - b) * (1 / 100) = b" for a b :: real
      by (simp add: field_simps)
    with False show ?thesis by (simp only: if_False)
  qed
  finally show ?thesis .
qed

lemma map_percent_const:
  assumes "vs \<noteq> []" and "\<forall>v\<in>set vs. v = c"
  shows "map_percent vs percent = Inr c"
proof -
  from assms have "set vs = {c}"
    by (cases vs) auto
  then show ?thesis
    using assms(1) by (simp add: map_percent_def py_max_Max py_min_Min)
qed

lemma map_const_replicate: "(\<And>x. x \<in> set xs \<Longrightarrow> f x = c) \<Longrightarrow> map f xs = replicate (length xs) c"
  by (induction xs) simp_all

lemma check_replicate_False: "check partial (replicate n False) = (n = 0 \<and> \<not> partial)"
  by (cases n) (auto simp add: check_def py_any_def py_all_def list_ex_iff list_all_iff)

lemma none_above_max:
  "map (\<lambda>v. v > Max (set vs)) vs = replicate (length vs) False"
  by (rule map_const_replicate) (simp add: not_less)

lemma by_side_zero:
  "by_side points direction 0 =
     (if points = [] then Inl ValueError else Inr (replicate (length points) False))"
proof (cases "points = []")
  case True
  then show ?thesis by (simp add: by_side_def np_dot_def)
next
  case False
  let ?vs = "map (\<lambda>p. vdot p (vdiv direction (vnorm direction))) points"
  from False have ne: "?vs \<noteq> []" by simp
  have "np_dot points (vdiv direction (vnorm direction)) = Inr ?vs"
    using False by (simp add: np_dot_def)
  then have "by_side points direction 0 = Inr (replicate (length ?vs) False)"
    unfolding by_side_def Let_def
    by (simp only: map_percent_zero[OF ne] ebind_Inr none_above_max)
  with False show ?thesis by simp
qed

lemma np_dot_all:
  "mapM (\<lambda>x. np_dot (pts x) direction) xs =
     (if list_all (\<lambda>x. pts x \<noteq> []) xs then Inr (map (\<lambda>x. map (\<lambda>p. vdot p direction) (pts x)) xs)
      else Inl ValueError)"
proof (cases "list_all (\<lambda>x. pts x \<noteq> []) xs")
  case True
  then have "mapM (\<lambda>x. np_dot (pts x) direction) xs
               = Inr (map (\<lambda>x. map (\<lambda>p. vdot p direction) (pts x)) xs)"
    by (intro mapM_total) (simp add: np_dot_def list_all_iff)
  with True show ?thesis by simp
next
  case False
  have "mapM (\<lambda>x. np_dot (pts x) direction) xs = Inl ValueError"
  proof (rule mapM_fails)
    from False show "\<exists>x\<in>set xs. np_dot (pts x) direction = Inl ValueError"
      by (auto simp add: list_all_iff np_dot_def)
  next
    fix x e' assume "np_dot (pts x) direction = Inl e'"
    then show "e' = ValueError"
      by (simp add: np_dot_def split: if_splits)
  qed
  with False show ?thesis by simp
qed

lemma edges_by_side_threshold:
  "edges_by_side node t direction percent =
     (if list_all (\<lambda>e. get_points_by_edge t e \<noteq> []) (Edges (topo_solid t)) then
        ebind (map_percent (edge_values t direction) percent) (\<lambda>threshold.
          Inr (map (\<lambda>e. check (include_partial node)
                       (map (\<lambda>p. threshold < vdot p direction) (get_points_by_edge t e)))
                 (Edges (topo_solid t))))
      else Inl ValueError)"
  by (simp add: edges_by_side_def np_dot_all edge_values_def Let_def comp_def)

lemma faces_by_side_threshold:
  "faces_by_side node t direction percent =
     (if list_all (\<lambda>f. get_points_by_face t f \<noteq> []) (Faces (topo_solid t)) then
        ebind (map_percent (face_values t direction) percent) (\<lambda>threshold.
          Inr (map (\<lambda>f. check (include_partial node)
                       (map (\<lambda>p. threshold < vdot p direction) (get_points_by_face t f)))
                 (Faces (topo_solid t))))
      else Inl ValueError)"
  by (simp add: faces_by_side_def np_dot_all face_values_def Let_def comp_def)

lemma edge_value_member:
  "e \<in> set (Edges (topo_solid t)) \<Longrightarrow> p \<in> set (get_points_by_edge t e)
     \<Longrightarrow> vdot p direction \<in> set (edge_values t direction)"
  by (auto simp add: edge_values_def)

lemma face_value_member:
  "f \<in> set (Faces (topo_solid t)) \<Longrightarrow> p \<in> set (get_points_by_face t f)
     \<Longrightarrow> vdot p direction \<in> set (face_values t direction)"
  by (auto simp add: face_values_def)

lemma check_all_False:
  "(\<And>x. x \<in> set xs \<Longrightarrow> \<not> P x) \<Longrightarrow> check partial (map P xs) = (xs = [] \<and> \<not> partial)"
  by (cases xs) (auto simp add: check_def py_any_def py_all_def list_ex_iff list_all_iff)

lemma edges_sampled_values: "edges_sampled t \<Longrightarrow> edge_values t direction \<noteq> []"
  by (cases "Edges (topo_solid t)") (auto simp add: edges_sampled_def edge_values_def)

lemma faces_sampled_values: "faces_sampled t \<Longrightarrow> face_values t direction \<noteq> []"
  by (cases "Faces (topo_solid t)") (auto simp add: faces_sampled_def face_values_def)

lemma edges_unsampled:
  "\<not> edges_sampled t \<Longrightarrow> edges_by_side node t direction percent = Inl ValueError"
  by (auto simp add: edges_by_side_threshold edges_sampled_def edge_values_def map_percent_empty)

lemma faces_unsampled:
  "\<not> faces_sampled t \<Longrightarrow> faces_by_side node t direction percent = Inl ValueError"
  by (auto simp add: faces_by_side_threshold faces_sampled_def face_values_def map_percent_empty)

lemma edges_sampled_threshold:
  assumes "edges_sampled t" and "map_percent (edge_values t direction) percent = Inr th"
    and "\<And>v. v \<in> set (edge_values t direction) \<Longrightarrow> \<not> th < v"
  shows "edges_by_side node t direction percent
           = Inr (replicate (length (Edges (topo_solid t))) False)"
proof -
  have "map (\<lambda>e. check (include_partial node)
                    (map (\<lambda>p. th < vdot p direction) (get_points_by_edge t e)))
              (Edges (topo_solid t)) = replicate (length (Edges (topo_solid t))) False"
  proof (rule map_const_replicate)
    fix e assume e: "e \<in> set (Edges (topo_solid t))"
    have "check (include_partial node) (map (\<lambda>p. th < vdot p direction) (get_points_by_edge t e))
          = (get_points_by_edge t e = [] \<and> \<not> include_partial node)"
    proof (rule check_all_False)
      fix p assume "p \<in> set (get_points_by_edge t e)"
      from assms(3)[OF edge_value_member[OF e this, of direction]]
      show "\<not> th < vdot p direction" .
    qed
    with assms(1) e show "check (include_partial node)
        (map (\<lambda>p. th < vdot p direction) (get_points_by_edge t e)) = False"
      by (simp add: edges_sampled_def list_all_iff)
  qed
  with assms(1,2) show ?thesis
    by (simp add: edges_by_side_threshold edges_sampled_def)
qed

lemma faces_sampled_threshold:
  assumes "faces_sampled t" and "map_percent (face_values t direction) percent = Inr th"
    and "\<And>v. v \<in> set (face_values t direction) \<Longrightarrow> \<not> th < v"
  shows "faces_by_side node t direction percent
           = Inr (replicate (length (Faces (topo_solid t))) False)"
proof -
  have "map (\<lambda>f. check (include_partial node)
                    (map (\<lambda>p. th < vdot p direction) (get_points_by_face t f)))
              (Faces (topo_solid t)) = replicate (length (Faces (topo_solid t))) False"
  proof (rule map_const_replicate)
    fix f assume f: "f \<in> set (Faces (topo_solid t))"
    have "check (include_partial node) (map (\<lambda>p. th < vdot p direction) (get_points_by_face t f))
          = (get_points_by_face t f = [] \<and> \<not> include_partial node)"
    proof (rule check_all_False)
      fix p assume "p \<in> set (get_points_by_face t f)"
      from assms(3)[OF face_value_member[OF f this, of direction]]
      show "\<not> th < vdot p direction" .
    qed
    with assms(1) f show "check (include_partial node)
        (map (\<lambda>p. th < vdot p direction) (get_points_by_face t f)) = False"
      by (simp add: faces_sampled_def list_all_iff)
  qed
  with assms(1,2) show ?thesis
    by (simp add: faces_by_side_threshold faces_sampled_def)
qed

lemma edges_by_side_zero:
  "edges_by_side node t direction 0 =
     (if edges_sampled t then Inr (replicate (length (Edges (topo_solid t))) False)
      else Inl ValueError)"
proof (cases "edges_sampled t")
  case True
  have "edges_by_side node t direction 0 = Inr (replicate (length (Edges (topo_solid t))) False)"
    by (rule edges_sampled_threshold[OF True map_percent_zero[OF edges_sampled_values[OF True]]])
      (simp add: not_less)
  with True show ?thesis by simp
next
  case False
  then show ?thesis by (simp add: edges_unsampled)
qed

lemma faces_by_side_zero:
  "faces_by_side node t direction 0 =
     (if faces_sampled t then Inr (replicate (length (Faces (topo_solid t))) False)
      else Inl ValueError)"
proof (cases "faces_sampled t")
  case True
  have "faces_by_side node t direction 0 = Inr (replicate (length (Faces (topo_solid t))) False)"
    by (rule faces_sampled_threshold[OF True map_percent_zero[OF faces_sampled_values[OF True]]])
      (simp add: not_less)
  with True show ?thesis by simp
next
  case False
  then show ?thesis by (simp add: faces_unsampled)
qed

lemma verts_by_side_threshold:
  "verts_by_side s direction percent =
     (if Vertexes s = [] then Inl ValueError
      else ebind (map_percent (vertex_values s direction) percent) (\<lambda>threshold.
             Inr (map (\<lambda>p. threshold < vdot p (vdiv direction (vnorm direction))) (Vertexes s))))"
  by (simp add: verts_by_side_def by_side_def np_dot_def vertex_values_def Let_def comp_def)

text \<open>
  Claim C3, as the code has it. With percent = 0 the threshold is the largest sampled
  value and the test is strictly greater, so "by side" selects no vertex, no edge and no
  face. A category without elements, or with an element without sample points, raises
  ValueError.
\<close>

theorem side_percent_zero_selects_nothing:
  "verts_by_side s direction 0 =
     (if Vertexes s = [] then Inl ValueError
      else Inr (replicate (length (Vertexes s)) False))
   \<and> edges_by_side node t direction 0 =
     (if edges_sampled t then Inr (replicate (length (Edges (topo_solid t))) False)
      else Inl ValueError)
   \<and> faces_by_side node t direction 0 =
     (if faces_sampled t then Inr (replicate (length (Faces (topo_solid t))) False)
      else Inl ValueError)"
  by (simp only: verts_by_side_def by_side_zero edges_by_side_zero faces_by_side_zero simp_thms)

lemma vnorm_z [simp]: "vnorm (0, 0, 1) = 1"
  by (simp add: vnorm_def)

lemmas tetra_defs = tetrahedron_def tetra_edge_def tetra_face_def tetra_points_def
  tessellate_def get_points_by_edge_def get_points_by_face_def

text \<open>
  Claim C3 as stated expects the apex of the tetrahedron, the only vertex of maximal
  height, to be selected at percent = 0. No vertex is.
\<close>

theorem side_percent_zero_counterexample:
  "verts_by_side tetrahedron (0, 0, 1) 0 = Inr [False, False, False, False]"
  by (simp add: verts_by_side_def by_side_def np_dot_def map_percent_def py_max_def py_min_def
      tetra_defs)

text \<open>The three masks at percent = 0 on the tetrahedron.\<close>

theorem side_percent_zero_witness:
  "verts_by_side tetrahedron (0, 0, 1) 0 = Inr [False, False, False, False]
   \<and> edges_by_side (strict_node EDGES SIDE) (tessellate tetrahedron (1/100)) (0, 0, 1) 0
       = Inr [False, False, False, False, False, False]
   \<and> faces_by_side (partial_node FACES SIDE) (tessellate tetrahedron (1/100)) (0, 0, 1) 0
       = Inr [False, False, False, False]"
  using side_percent_zero_selects_nothing[of tetrahedron "(0, 0, 1)" "strict_node EDGES SIDE"
      "tessellate tetrahedron (1/100)"]
    side_percent_zero_selects_nothing[of tetrahedron "(0, 0, 1)" "partial_node FACES SIDE"
      "tessellate tetrahedron (1/100)"]
  by (simp add: edges_sampled_def faces_sampled_def tetra_defs)











text \<open>
  The methods above are the instance of exact arithmetic.
\<close>

lemma map_percent_exact: "map_percent_fl exact_arith vs percent = map_percent vs percent"
  by (simp add: map_percent_fl_def map_percent_def exact_arith_def exact_threshold_def
      cong: if_cong)

lemma np_dot_exact: "np_dot_fl exact_arith points direction = np_dot points direction"
  by (simp add: np_dot_fl_def np_dot_def exact_arith_def)

lemma verts_by_side_exact:
  "verts_by_side_fl exact_arith s direction percent = verts_by_side s direction percent"
  by (simp add: verts_by_side_fl_def verts_by_side_def by_side_fl_def by_side_def
      np_dot_exact map_percent_exact)
     (simp add: exact_arith_def)

lemma edges_by_side_exact:
  "edges_by_side_fl exact_arith node t direction percent = edges_by_side node t direction percent"
  by (simp add: edges_by_side_fl_def edges_by_side_def np_dot_exact map_percent_exact)

lemma faces_by_side_exact:
  "faces_by_side_fl exact_arith node t direction percent = faces_by_side node t direction percent"
  by (simp add: faces_by_side_fl_def faces_by_side_def np_dot_exact map_percent_exact)




lemmas plate_defs = plate_def plate_edge_def plate_face_def plate_points_def
  tessellate_def get_points_by_edge_def get_points_by_face_def

lemma threshold_const:
  assumes "xs \<noteq> []" and "\<forall>x\<in>set xs. f x = c"
  shows "ebind (map_percent (map f xs) percent) (\<lambda>threshold. Inr (map (\<lambda>x. threshold < f x) xs))
         = Inr (replicate (length xs) False)"
proof -
  have "map_percent (map f xs) percent = Inr c"
    by (rule map_percent_const) (use assms in auto)
  moreover have "map (\<lambda>x. c < f x) xs = replicate (length xs) False"
    by (rule map_const_replicate) (use assms in simp)
  ultimately show ?thesis by simp
qed

lemma verts_by_side_const:
  assumes "Vertexes s \<noteq> []"
    and "\<forall>p\<in>set (Vertexes s). vdot p (vdiv direction (vnorm direction)) = c"
  shows "verts_by_side s direction percent = Inr (replicate (length (Vertexes s)) False)"
  using threshold_const[OF assms, of percent] assms(1)
  by (simp add: verts_by_side_threshold vertex_values_def)

lemma faces_by_normal_const:
  assumes "Faces (topo_solid t) \<noteq> []"
    and "\<forall>f\<in>set (Faces (topo_solid t)). vdot direction (plane_normal G (get_points_by_face t f)) = c"
  shows "faces_by_normal G t direction percent = Inr (replicate (length (Faces (topo_solid t))) False)"
  using threshold_const[OF assms, of percent]
  by (simp add: faces_by_normal_def Let_def comp_def)

lemma edges_by_direction_const:
  assumes "Edges (topo_solid t) \<noteq> []"
    and "\<forall>e\<in>set (Edges (topo_solid t)). \<bar>vdot direction (line_direction G (get_points_by_edge t e))\<bar> = c"
  shows "edges_by_direction G t direction percent = Inr (replicate (length (Edges (topo_solid t))) False)"
  using threshold_const[OF assms, of percent]
  by (simp add: edges_by_direction_def Let_def comp_def)

lemma edges_by_side_const:
  assumes "edges_sampled t" and eq: "\<forall>v\<in>set (edge_values t direction). v = c"
  shows "edges_by_side node t direction percent = Inr (replicate (length (Edges (topo_solid t))) False)"
proof (rule edges_sampled_threshold[OF assms(1)])
  show "map_percent (edge_values t direction) percent = Inr c"
    using edges_sampled_values[OF assms(1)] eq by (rule map_percent_const)
next
  fix v assume "v \<in> set (edge_values t direction)"
  with eq show "\<not> c < v" by auto
qed

lemma faces_by_side_const:
  assumes "faces_sampled t" and eq: "\<forall>v\<in>set (face_values t direction). v = c"
  shows "faces_by_side node t direction percent = Inr (replicate (length (Faces (topo_solid t))) False)"
proof (rule faces_sampled_threshold[OF assms(1)])
  show "map_percent (face_values t direction) percent = Inr c"
    using faces_sampled_values[OF assms(1)] eq by (rule map_percent_const)
next
  fix v assume "v \<in> set (face_values t direction)"
  with eq show "\<not> c < v" by auto
qed

text \<open>
  Claim C10. When all measured values are equal to \<open>c\<close>, \<open>map_percent\<close> returns
  \<open>c\<close> for every percent, and the strict comparison selects nothing: no vertex by
  side, no face by normal, no edge by direction, and no edge or face by side.
\<close>

theorem equal_values_select_nothing:
  "(vs \<noteq> [] \<and> (\<forall>v\<in>set vs. v = c) \<longrightarrow> map_percent vs percent = Inr c)
   \<and> (Vertexes s \<noteq> [] \<and> (\<forall>p\<in>set (Vertexes s). vdot p (vdiv direction (vnorm direction)) = c)
        \<longrightarrow> verts_by_side s direction percent = Inr (replicate (length (Vertexes s)) False))
   \<and> (Faces (topo_solid t) \<noteq> []
        \<and> (\<forall>f\<in>set (Faces (topo_solid t)).
              vdot direction (plane_normal G (get_points_by_face t f)) = c)
        \<longrightarrow> faces_by_normal G t direction percent
              = Inr (replicate (length (Faces (topo_solid t))) False))
   \<and> (Edges (topo_solid t) \<noteq> []
        \<and> (\<forall>e\<in>set (Edges (topo_solid t)).
              \<bar>vdot direction (line_direction G (get_points_by_edge t e))\<bar> = c)
        \<longrightarrow> edges_by_direction G t direction percent
              = Inr (replicate (length (Edges (topo_solid t))) False))
   \<and> (edges_sampled t \<and> (\<forall>v\<in>set (edge_values t direction). v = c)
        \<longrightarrow> edges_by_side node t direction percent
              = Inr (replicate (length (Edges (topo_solid t))) False))
   \<and> (faces_sampled t \<and> (\<forall>v\<in>set (face_values t direction). v = c)
        \<longrightarrow> faces_by_side node t direction percent
              = Inr (replicate (length (Faces (topo_solid t))) False))"
  using map_percent_const[of vs c percent] verts_by_side_const[of s direction c percent]
    faces_by_normal_const[of t direction G c percent]
    edges_by_direction_const[of t direction G c percent]
    edges_by_side_const[of t direction c node percent]
    faces_by_side_const[of t direction c node percent]
  by blast

text \<open>The plate lies in the plane z = 1; every measured value on it is the same.\<close>

theorem equal_values_select_nothing_witness:
  "map_percent [1, 1] 50 = Inr 1
   \<and> verts_by_side plate (0, 0, 1) 50 = Inr [False, False, False, False]
   \<and> faces_by_normal example_geom (tessellate plate (1/100)) (0, 0, 1) 50 = Inr [False, False]
   \<and> edges_by_direction example_geom (tessellate plate (1/100)) (0, 0, 1) 50
       = Inr [False, False, False, False]
   \<and> edges_by_side (strict_node EDGES SIDE) (tessellate plate (1/100)) (0, 0, 1) 50
       = Inr [False, False, False, False]
   \<and> faces_by_side (partial_node FACES SIDE) (tessellate plate (1/100)) (0, 0, 1) 50
       = Inr [False, False]"
  using equal_values_select_nothing[of "[1, 1]" 1 50 plate "(0, 0, 1)"
      "tessellate plate (1/100)" example_geom "strict_node EDGES SIDE"]
    equal_values_select_nothing[of "[1, 1]" 1 50 plate "(0, 0, 1)"
      "tessellate plate (1/100)" example_geom "partial_node FACES SIDE"]
    equal_values_select_nothing[of "[0]" 0 50 plate "(0, 0, 1)"
      "tessellate plate (1/100)" example_geom "strict_node EDGES SIDE"]
  by (simp add: plate_defs example_geom_def edge_values_def face_values_def
      edges_sampled_def faces_sampled_def)

lemma mask_le_map:
  "(\<And>x. x \<in> set xs \<Longrightarrow> P x \<Longrightarrow> Q x) \<Longrightarrow> mask_le (map P xs) (map Q xs)"
  by (simp add: mask_le_def)

lemma check_mono:
  "(\<And>x. x \<in> set xs \<Longrightarrow> P x \<Longrightarrow> Q x) \<Longrightarrow> check partial (map P xs) \<Longrightarrow> check partial (map Q xs)"
  by (auto simp add: check_def py_any_def py_all_def list_ex_iff list_all_iff split: if_splits)

lemma selected_set:
  "set (selected flags n) = {i. i < n \<and> i < length flags \<and> flags ! i}"
proof -
  have "set (selected flags n) = snd ` {p \<in> set (zip flags [0..<n]). fst p}"
    by (simp add: selected_def)
  also have "\<dots> = {i. i < n \<and> i < length flags \<and> flags ! i}"
    by (auto simp add: in_set_zip image_iff) force
  finally show ?thesis .
qed

lemma selected_mono: "mask_le a b \<Longrightarrow> set (selected a n) \<subseteq> set (selected b n)"
  by (auto simp add: selected_set mask_le_def)

lemma list_ex_mono_set: "set xs \<subseteq> set ys \<Longrightarrow> list_ex P xs \<Longrightarrow> list_ex P ys"
  by (auto simp add: list_ex_iff)

lemma derived_mono:
  assumes "set xs \<subseteq> set ys"
  shows "mask_le (get_edges_by_vertices_mask s xs) (get_edges_by_vertices_mask s ys)"
    and "mask_le (get_faces_by_vertices_mask s xs) (get_faces_by_vertices_mask s ys)"
    and "mask_le (get_vertices_by_edges_mask s xs) (get_vertices_by_edges_mask s ys)"
    and "mask_le (get_faces_by_edges_mask s xs) (get_faces_by_edges_mask s ys)"
    and "mask_le (get_vertices_by_faces_mask s xs) (get_vertices_by_faces_mask s ys)"
    and "mask_le (get_edges_by_faces_mask s xs) (get_edges_by_faces_mask s ys)"
  unfolding get_edges_by_vertices_mask_def get_faces_by_vertices_mask_def
    get_vertices_by_edges_mask_def get_faces_by_edges_mask_def
    get_vertices_by_faces_mask_def get_edges_by_faces_mask_def
  by (rule mask_le_map, erule list_ex_mono_set[OF assms])+

lemma square_mono: "0 \<le> r1 \<Longrightarrow> r1 \<le> r2 \<Longrightarrow> r1 * r1 \<le> r2 * (r2::real)"
  by (rule mult_mono) simp_all

lemma mask_le_Nil [simp]: "mask_le [] []"
  by (simp add: mask_le_def)

lemma mask_le_Cons [simp]: "mask_le (a # as) (b # bs) = ((a \<longrightarrow> b) \<and> mask_le as bs)"
  by (auto simp add: mask_le_def nth_Cons split: nat.splits)

lemma mapM_mono:
  assumes "\<And>x y. x \<in> set xs \<Longrightarrow> f x = Inr y \<Longrightarrow> \<exists>y'. g x = Inr y' \<and> (y \<longrightarrow> y')"
    and "mapM f xs = Inr ys"
  shows "\<exists>ys'. mapM g xs = Inr ys' \<and> mask_le ys ys'"
  using assms
proof (induction xs arbitrary: ys)
  case Nil
  then show ?case by simp
next
  case (Cons x xs)
  from Cons.prems(2) obtain y rest where fx: "f x = Inr y" and r: "mapM f xs = Inr rest"
    and ys: "ys = y # rest"
    by (auto split: sum.splits)
  from Cons.prems(1)[OF _ fx] obtain y' where gx: "g x = Inr y'" and yy: "y \<longrightarrow> y'"
    by auto
  from Cons.IH[OF _ r] Cons.prems(1) obtain rest' where r': "mapM g xs = Inr rest'"
    and le: "mask_le rest rest'"
    by auto
  from gx r' yy le ys show ?case by simp
qed

lemma mapM_returns: "(\<And>x. x \<in> set xs \<Longrightarrow> \<exists>y. f x = Inr y) \<Longrightarrow> \<exists>ys. mapM f xs = Inr ys"
proof (induction xs)
  case Nil
  then show ?case by simp
next
  case (Cons x xs)
  from Cons.prems[of x] obtain y where "f x = Inr y" by auto
  moreover from Cons.IH Cons.prems obtain ys where "mapM f xs = Inr ys" by auto
  ultimately show ?case by simp
qed

lemma location_mask_mono:
  assumes c1: "\<And>pts. c1 pts = (if D pts then Inr (map P pts) else Inl e)"
    and c2: "\<And>pts. c2 pts = (if D pts then Inr (map Q pts) else Inl e)"
    and PQ: "\<And>p. P p \<Longrightarrow> Q p"
  shows "get_edges_by_location_mask t c1 partial = Inr m1
           \<Longrightarrow> \<exists>m2. get_edges_by_location_mask t c2 partial = Inr m2 \<and> mask_le m1 m2"
    and "get_faces_by_location_mask t c1 partial = Inr m1
           \<Longrightarrow> \<exists>m2. get_faces_by_location_mask t c2 partial = Inr m2 \<and> mask_le m1 m2"
proof -
  have step: "\<exists>y'. ebind (c2 pts) (\<lambda>test. Inr (check partial test)) = Inr y' \<and> (y \<longrightarrow> y')"
    if "ebind (c1 pts) (\<lambda>test. Inr (check partial test)) = Inr y" for pts y
  proof (cases "D pts")
    case True
    with that have "y = check partial (map P pts)"
      by (simp add: c1)
    moreover have "check partial (map P pts) \<longrightarrow> check partial (map Q pts)"
      using check_mono[of pts P Q partial] PQ by blast
    ultimately show ?thesis using True by (simp add: c2)
  next
    case False
    with that show ?thesis by (simp add: c1)
  qed
  show "get_edges_by_location_mask t c1 partial = Inr m1
           \<Longrightarrow> \<exists>m2. get_edges_by_location_mask t c2 partial = Inr m2 \<and> mask_le m1 m2"
    unfolding get_edges_by_location_mask_def
    by (rule mapM_mono[where f = "\<lambda>e. ebind (c1 (get_points_by_edge t e)) (\<lambda>test. Inr (check partial test))"])
       (rule step)
  show "get_faces_by_location_mask t c1 partial = Inr m1
           \<Longrightarrow> \<exists>m2. get_faces_by_location_mask t c2 partial = Inr m2 \<and> mask_le m1 m2"
    unfolding get_faces_by_location_mask_def
    by (rule mapM_mono[where f = "\<lambda>f. ebind (c1 (get_points_by_face t f)) (\<lambda>test. Inr (check partial test))"])
       (rule step)
qed

lemma sphere_condition_if:
  "sphere_condition center radius pts =
     (if pts \<noteq> [] then Inr (map (\<lambda>p. vdot (vsub p center) (vsub p center) < radius * radius) pts)
      else Inl ValueError)"
  by (simp add: sphere_condition_def Let_def)

lemma total_condition_if:
  "Inr (map P pts) = (if True then Inr (map P pts) else Inl ValueError)"
  by simp

lemma primary_radius_mono:
  assumes nonneg: "0 \<le> r1" and le: "r1 \<le> r2"
  shows "mask_le (verts_by_sphere s center r1) (verts_by_sphere s center r2)"
    and "mask_le (verts_by_plane G s center direction r1) (verts_by_plane G s center direction r2)"
    and "mask_le (verts_by_cylinder G s center direction r1) (verts_by_cylinder G s center direction r2)"
    and "edges_by_sphere node t center r1 = Inr m1
           \<Longrightarrow> \<exists>m2. edges_by_sphere node t center r2 = Inr m2 \<and> mask_le m1 m2"
    and "edges_by_plane G node t center direction r1 = Inr m1
           \<Longrightarrow> \<exists>m2. edges_by_plane G node t center direction r2 = Inr m2 \<and> mask_le m1 m2"
    and "edges_by_cylinder G node t center direction r1 = Inr m1
           \<Longrightarrow> \<exists>m2. edges_by_cylinder G node t center direction r2 = Inr m2 \<and> mask_le m1 m2"
    and "faces_by_sphere node t center r1 = Inr m1
           \<Longrightarrow> \<exists>m2. faces_by_sphere node t center r2 = Inr m2 \<and> mask_le m1 m2"
    and "faces_by_plane G node t center direction r1 = Inr m1
           \<Longrightarrow> \<exists>m2. faces_by_plane G node t center direction r2 = Inr m2 \<and> mask_le m1 m2"
    and "faces_by_cylinder G node t center direction r1 = Inr m1
           \<Longrightarrow> \<exists>m2. faces_by_cylinder G node t center direction r2 = Inr m2 \<and> mask_le m1 m2"
proof -
  note sq = square_mono[OF nonneg le]
  show "mask_le (verts_by_sphere s center r1) (verts_by_sphere s center r2)"
    unfolding verts_by_sphere_def get_vertices_within_range_mask_def
    by (rule mask_le_map) (use le in simp)
  show "mask_le (verts_by_plane G s center direction r1) (verts_by_plane G s center direction r2)"
    unfolding verts_by_plane_def get_vertices_by_location_mask_def
    by (rule mask_le_map) (use le in simp)
  show "mask_le (verts_by_cylinder G s center direction r1) (verts_by_cylinder G s center direction r2)"
    unfolding verts_by_cylinder_def get_vertices_by_location_mask_def
    by (rule mask_le_map) (use le in simp)
  show "edges_by_sphere node t center r1 = Inr m1
           \<Longrightarrow> \<exists>m2. edges_by_sphere node t center r2 = Inr m2 \<and> mask_le m1 m2"
    unfolding edges_by_sphere_def
    by (erule location_mask_mono(1)[rotated 3, OF _ sphere_condition_if sphere_condition_if])
       (use sq in simp)
  show "faces_by_sphere node t center r1 = Inr m1
           \<Longrightarrow> \<exists>m2. faces_by_sphere node t center r2 = Inr m2 \<and> mask_le m1 m2"
    unfolding faces_by_sphere_def
    by (erule location_mask_mono(2)[rotated 3, OF _ sphere_condition_if sphere_condition_if])
       (use sq in simp)
  show "edges_by_plane G node t center direction r1 = Inr m1
           \<Longrightarrow> \<exists>m2. edges_by_plane G node t center direction r2 = Inr m2 \<and> mask_le m1 m2"
    unfolding edges_by_plane_def
    by (erule location_mask_mono(1)[rotated 3, OF _ total_condition_if total_condition_if])
       (use le in simp)
  show "edges_by_cylinder G node t center direction r1 = Inr m1
           \<Longrightarrow> \<exists>m2. edges_by_cylinder G node t center direction r2 = Inr m2 \<and> mask_le m1 m2"
    unfolding edges_by_cylinder_def
    by (erule location_mask_mono(1)[rotated 3, OF _ total_condition_if total_condition_if])
       (use le in simp)
  show "faces_by_plane G node t center direction r1 = Inr m1
           \<Longrightarrow> \<exists>m2. faces_by_plane G node t center direction r2 = Inr m2 \<and> mask_le m1 m2"
    unfolding faces_by_plane_def
    by (erule location_mask_mono(2)[rotated 3, OF _ total_condition_if total_condition_if])
       (use le in simp)
  show "faces_by_cylinder G node t center direction r1 = Inr m1
           \<Longrightarrow> \<exists>m2. faces_by_cylinder G node t center direction r2 = Inr m2 \<and> mask_le m1 m2"
    unfolding faces_by_cylinder_def
    by (erule location_mask_mono(2)[rotated 3, OF _ total_condition_if total_condition_if])
       (use le in simp)
qed

lemma location_mask_returns:
  assumes "\<And>pts. D pts \<Longrightarrow> \<exists>test. c pts = Inr test"
  shows "list_all (\<lambda>e. D (get_points_by_edge t e)) (Edges (topo_solid t))
           \<Longrightarrow> \<exists>m. get_edges_by_location_mask t c partial = Inr m"
    and "list_all (\<lambda>f. D (get_points_by_face t f)) (Faces (topo_solid t))
           \<Longrightarrow> \<exists>m. get_faces_by_location_mask t c partial = Inr m"
  unfolding get_edges_by_location_mask_def get_faces_by_location_mask_def
  by (rule mapM_returns, use assms in \<open>fastforce simp add: list_all_iff\<close>)+

lemma primary_radius_returns:
  "list_all (\<lambda>e. get_points_by_edge t e \<noteq> []) (Edges (topo_solid t))
     \<Longrightarrow> \<exists>m. edges_by_sphere node t center radius = Inr m"
  "list_all (\<lambda>f. get_points_by_face t f \<noteq> []) (Faces (topo_solid t))
     \<Longrightarrow> \<exists>m. faces_by_sphere node t center radius = Inr m"
  "\<exists>m. edges_by_plane G node t center direction radius = Inr m"
  "\<exists>m. edges_by_cylinder G node t center direction radius = Inr m"
  "\<exists>m. faces_by_plane G node t center direction radius = Inr m"
  "\<exists>m. faces_by_cylinder G node t center direction radius = Inr m"
proof -
  show "list_all (\<lambda>e. get_points_by_edge t e \<noteq> []) (Edges (topo_solid t))
     \<Longrightarrow> \<exists>m. edges_by_sphere node t center radius = Inr m"
    unfolding edges_by_sphere_def
    by (rule location_mask_returns(1)[where D = "\<lambda>pts. pts \<noteq> []"])
       (simp_all add: sphere_condition_def)
  show "list_all (\<lambda>f. get_points_by_face t f \<noteq> []) (Faces (topo_solid t))
     \<Longrightarrow> \<exists>m. faces_by_sphere node t center radius = Inr m"
    unfolding faces_by_sphere_def
    by (rule location_mask_returns(2)[where D = "\<lambda>pts. pts \<noteq> []"])
       (simp_all add: sphere_condition_def)
  show "\<exists>m. edges_by_plane G node t center direction radius = Inr m"
    unfolding edges_by_plane_def
    by (rule location_mask_returns(1)[where D = "\<lambda>pts. True"]) (simp_all add: list_all_iff)
  show "\<exists>m. edges_by_cylinder G node t center direction radius = Inr m"
    unfolding edges_by_cylinder_def
    by (rule location_mask_returns(1)[where D = "\<lambda>pts. True"]) (simp_all add: list_all_iff)
  show "\<exists>m. faces_by_plane G node t center direction radius = Inr m"
    unfolding faces_by_plane_def
    by (rule location_mask_returns(2)[where D = "\<lambda>pts. True"]) (simp_all add: list_all_iff)
  show "\<exists>m. faces_by_cylinder G node t center direction radius = Inr m"
    unfolding faces_by_cylinder_def
    by (rule location_mask_returns(2)[where D = "\<lambda>pts. True"]) (simp_all add: list_all_iff)
qed

lemma topo_solid_tessellate [simp]: "topo_solid (tessellate s precision) = s"
  by (simp add: tessellate_def)

lemma points_tessellate [simp]:
  "get_points_by_edge (tessellate s precision) e = edge_points e precision"
  "get_points_by_face (tessellate s precision) f = face_points f precision"
  by (simp_all add: tessellate_def get_points_by_edge_def get_points_by_face_def)

text \<open>
  Claim C5. For the sphere, plane and cylinder criteria and radii
  \<open>0 \<le> r1 \<le> r2\<close>: when the selection at \<open>r1\<close> returns masks, the selection at
  \<open>r2\<close> returns masks too, and each of the three masks at \<open>r1\<close> is below the mask at
  \<open>r2\<close>. The selection returns unless the sphere criterion meets an edge or face
  without sample points.
\<close>

theorem radius_monotone:
  assumes crit: "criteria_type node = SPHERE \<or> criteria_type node = PLANE
                 \<or> criteria_type node = CYLINDER"
    and nonneg: "0 \<le> r1" and le: "r1 \<le> r2"
  shows "(\<forall>vm1 em1 fm1.
            calc_mask G node s precision direction center percent r1 = Inr (vm1, em1, fm1)
            \<longrightarrow> (\<exists>vm2 em2 fm2.
                  calc_mask G node s precision direction center percent r2 = Inr (vm2, em2, fm2)
                  \<and> mask_le vm1 vm2 \<and> mask_le em1 em2 \<and> mask_le fm1 fm2))
       \<and> (sphere_sampled node s precision
            \<longrightarrow> (\<exists>vm1 em1 fm1.
                  calc_mask G node s precision direction center percent r1 = Inr (vm1, em1, fm1)))"
proof -
  consider (V) "element_type node = VERTS" | (E) "element_type node = EDGES"
    | (F) "element_type node = FACES"
    by (cases "element_type node") auto
  then show ?thesis
  proof cases
    case V
    let ?p = "\<lambda>r. if criteria_type node = SPHERE then verts_by_sphere s center r
                  else if criteria_type node = PLANE then verts_by_plane G s center direction r
                  else verts_by_cylinder G s center direction r"
    let ?n = "length (Vertexes s)"
    have calc: "calc_mask G node s precision direction center percent r =
                  Inr (?p r, get_edges_by_vertices_mask s (selected (?p r) ?n),
                       get_faces_by_vertices_mask s (selected (?p r) ?n))" for r
      using crit V by (auto simp add: calc_mask_def Let_def)
    have prim: "mask_le (?p r1) (?p r2)"
      using primary_radius_mono(1-3)[OF nonneg le] by simp
    from derived_mono(1,2)[OF selected_mono[OF prim]] prim calc
    show ?thesis by simp
  next
    case E
    let ?t = "tessellate s precision"
    let ?p = "\<lambda>r. if criteria_type node = SPHERE then edges_by_sphere node ?t center r
                  else if criteria_type node = PLANE then edges_by_plane G node ?t center direction r
                  else edges_by_cylinder G node ?t center direction r"
    let ?n = "length (Edges s)"
    have calc: "calc_mask G node s precision direction center percent r =
                  ebind (?p r) (\<lambda>pm. Inr (get_vertices_by_edges_mask s (selected pm ?n), pm,
                       get_faces_by_edges_mask s (selected pm ?n)))" for r
      using crit E by (auto simp add: calc_mask_def Let_def)
    have mono: "\<exists>pm2. ?p r2 = Inr pm2 \<and> mask_le pm1 pm2" if "?p r1 = Inr pm1" for pm1
      using that by (auto split: if_splits dest: primary_radius_mono(4-6)[OF nonneg le])
    have ret: "\<exists>pm. ?p r1 = Inr pm" if "sphere_sampled node s precision"
      using that E
        primary_radius_returns(1)[where t = "tessellate s precision" and node = node
          and center = center and radius = r1]
        primary_radius_returns(3,4)[where t = "tessellate s precision" and node = node
          and center = center and radius = r1 and G = G and direction = direction]
      by (auto simp add: sphere_sampled_def)
    show ?thesis
    proof (intro conjI allI impI)
      fix vm1 em1 fm1
      assume "calc_mask G node s precision direction center percent r1 = Inr (vm1, em1, fm1)"
      then obtain pm1 where p1: "?p r1 = Inr pm1" and res: "em1 = pm1"
        "vm1 = get_vertices_by_edges_mask s (selected pm1 ?n)"
        "fm1 = get_faces_by_edges_mask s (selected pm1 ?n)"
        unfolding calc by (cases "?p r1") auto
      from mono[OF p1] obtain pm2 where p2: "?p r2 = Inr pm2" and ple: "mask_le pm1 pm2"
        by auto
      from derived_mono(3,4)[OF selected_mono[OF ple]] ple res
      show "\<exists>vm2 em2 fm2.
              calc_mask G node s precision direction center percent r2 = Inr (vm2, em2, fm2)
              \<and> mask_le vm1 vm2 \<and> mask_le em1 em2 \<and> mask_le fm1 fm2"
        unfolding calc p2 by simp
    next
      assume "sphere_sampled node s precision"
      from ret[OF this] obtain pm where "?p r1 = Inr pm" by auto
      then show "\<exists>vm1 em1 fm1.
          calc_mask G node s precision direction center percent r1 = Inr (vm1, em1, fm1)"
        unfolding calc by simp
    qed
  next
    case F
    let ?t = "tessellate s precision"
    let ?p = "\<lambda>r. if criteria_type node = SPHERE then faces_by_sphere node ?t center r
                  else if criteria_type node = PLANE then faces_by_plane G node ?t center direction r
                  else faces_by_cylinder G node ?t center direction r"
    let ?n = "length (Faces s)"
    have calc: "calc_mask G node s precision direction center percent r =
                  ebind (?p r) (\<lambda>pm. Inr (get_vertices_by_faces_mask s (selected pm ?n),
                       get_edges_by_faces_mask s (selected pm ?n), pm))" for r
      using crit F by (auto simp add: calc_mask_def Let_def)
    have mono: "\<exists>pm2. ?p r2 = Inr pm2 \<and> mask_le pm1 pm2" if "?p r1 = Inr pm1" for pm1
      using that by (auto split: if_splits dest: primary_radius_mono(7-9)[OF nonneg le])
    have ret: "\<exists>pm. ?p r1 = Inr pm" if "sphere_sampled node s precision"
      using that F
        primary_radius_returns(2)[where t = "tessellate s precision" and node = node
          and center = center and radius = r1]
        primary_radius_returns(5,6)[where t = "tessellate s precision" and node = node
          and center = center and radius = r1 and G = G and direction = direction]
      by (auto simp add: sphere_sampled_def)
    show ?thesis
    proof (intro conjI allI impI)
      fix vm1 em1 fm1
      assume "calc_mask G node s precision direction center percent r1 = Inr (vm1, em1, fm1)"
      then obtain pm1 where p1: "?p r1 = Inr pm1" and res: "fm1 = pm1"
        "vm1 = get_vertices_by_faces_mask s (selected pm1 ?n)"
        "em1 = get_edges_by_faces_mask s (selected pm1 ?n)"
        unfolding calc by (cases "?p r1") auto
      from mono[OF p1] obtain pm2 where p2: "?p r2 = Inr pm2" and ple: "mask_le pm1 pm2"
        by auto
      from derived_mono(5,6)[OF selected_mono[OF ple]] ple res
      show "\<exists>vm2 em2 fm2.
              calc_mask G node s precision direction center percent r2 = Inr (vm2, em2, fm2)
              \<and> mask_le vm1 vm2 \<and> mask_le em1 em2 \<and> mask_le fm1 fm2"
        unfolding calc p2 by simp
    next
      assume "sphere_sampled node s precision"
      from ret[OF this] obtain pm where "?p r1 = Inr pm" by auto
      then show "\<exists>vm1 em1 fm1.
          calc_mask G node s precision direction center percent r1 = Inr (vm1, em1, fm1)"
        unfolding calc by simp
    qed
  qed
qed

text \<open>
  Faces of the tetrahedron by sphere around the apex, partial selection: the three faces
  at the apex within the radius 1/2, and these among the faces within the radius 11/10.
\<close>

theorem radius_monotone_witness:
  "criteria_type (partial_node FACES SPHERE) = SPHERE \<and> (0::real) \<le> 1/2 \<and> (1/2::real) \<le> 11/10
   \<and> sphere_sampled (partial_node FACES SPHERE) tetrahedron (1/100)
   \<and> calc_mask example_geom (partial_node FACES SPHERE) tetrahedron (1/100) (0, 0, 1) (0, 0, 1) 1 (1/2)
       = Inr ([True, True, True, True], [True, True, True, True, True, True],
              [False, True, True, True])
   \<and> (\<exists>vm2 em2 fm2.
         calc_mask example_geom (partial_node FACES SPHERE) tetrahedron (1/100) (0, 0, 1) (0, 0, 1) 1 (11/10)
           = Inr (vm2, em2, fm2)
       \<and> mask_le [True, True, True, True] vm2
       \<and> mask_le [True, True, True, True, True, True] em2
       \<and> mask_le [False, True, True, True] fm2)"
proof -
  have c1: "calc_mask example_geom (partial_node FACES SPHERE) tetrahedron (1/100) (0, 0, 1) (0, 0, 1) 1 (1/2)
       = Inr ([True, True, True, True], [True, True, True, True, True, True],
              [False, True, True, True])"
    by (simp add: calc_mask_def faces_by_sphere_def get_faces_by_location_mask_def
        sphere_condition_def tetra_defs partial_node_def check_def py_any_def selected_def
        get_vertices_by_faces_mask_def get_edges_by_faces_mask_def Let_def)
  have sampled: "sphere_sampled (partial_node FACES SPHERE) tetrahedron (1/100)"
    by (simp add: sphere_sampled_def partial_node_def tetra_defs)
  have crit: "criteria_type (partial_node FACES SPHERE) = SPHERE"
    by (simp add: partial_node_def)
  from radius_monotone[of "partial_node FACES SPHERE" "1/2" "11/10" example_geom tetrahedron "1/100"
      "(0, 0, 1)" "(0, 0, 1)" 1] crit c1 sampled
  show ?thesis by simp
qed

lemma thresholded_length:
  "ebind m (\<lambda>threshold. Inr (map (g threshold) xs)) = Inr r \<Longrightarrow> length r = length xs"
  by (cases m) auto

lemma primary_lengths:
  "verts_by_side s direction percent = Inr vm \<Longrightarrow> length vm = length (Vertexes s)"
  "edges_by_side node t direction percent = Inr em \<Longrightarrow> length em = length (Edges (topo_solid t))"
  "edges_by_direction G t direction percent = Inr em \<Longrightarrow> length em = length (Edges (topo_solid t))"
  "faces_by_side node t direction percent = Inr fm \<Longrightarrow> length fm = length (Faces (topo_solid t))"
  "faces_by_normal G t direction percent = Inr fm \<Longrightarrow> length fm = length (Faces (topo_solid t))"
  "length (verts_by_sphere s center radius) = length (Vertexes s)"
  "length (verts_by_plane G s center direction radius) = length (Vertexes s)"
  "length (verts_by_cylinder G s center direction radius) = length (Vertexes s)"
  "edges_by_sphere node t center radius = Inr em \<Longrightarrow> length em = length (Edges (topo_solid t))"
  "edges_by_plane G node t center direction radius = Inr em
     \<Longrightarrow> length em = length (Edges (topo_solid t))"
  "edges_by_cylinder G node t center direction radius = Inr em
     \<Longrightarrow> length em = length (Edges (topo_solid t))"
  "faces_by_sphere node t center radius = Inr fm \<Longrightarrow> length fm = length (Faces (topo_solid t))"
  "faces_by_plane G node t center direction radius = Inr fm
     \<Longrightarrow> length fm = length (Faces (topo_solid t))"
  "faces_by_cylinder G node t center direction radius = Inr fm
     \<Longrightarrow> length fm = length (Faces (topo_solid t))"
proof -
  show "verts_by_side s direction percent = Inr vm \<Longrightarrow> length vm = length (Vertexes s)"
    unfolding verts_by_side_threshold by (auto split: if_splits dest: thresholded_length)
  show "edges_by_side node t direction percent = Inr em \<Longrightarrow> length em = length (Edges (topo_solid t))"
    unfolding edges_by_side_threshold by (auto split: if_splits dest: thresholded_length)
  show "faces_by_side node t direction percent = Inr fm \<Longrightarrow> length fm = length (Faces (topo_solid t))"
    unfolding faces_by_side_threshold by (auto split: if_splits dest: thresholded_length)
  show "edges_by_direction G t direction percent = Inr em \<Longrightarrow> length em = length (Edges (topo_solid t))"
    by (cases "map_percent (map (\<lambda>e. \<bar>vdot direction (line_direction G (get_points_by_edge t e))\<bar>)
                     (Edges (topo_solid t))) percent")
       (auto simp add: edges_by_direction_def Let_def)
  show "faces_by_normal G t direction percent = Inr fm \<Longrightarrow> length fm = length (Faces (topo_solid t))"
    by (cases "map_percent (map (\<lambda>f. vdot direction (plane_normal G (get_points_by_face t f)))
                     (Faces (topo_solid t))) percent")
       (auto simp add: faces_by_normal_def Let_def)
qed (auto simp add: verts_by_sphere_def verts_by_plane_def verts_by_cylinder_def
      edges_by_sphere_def edges_by_plane_def edges_by_cylinder_def
      faces_by_sphere_def faces_by_plane_def faces_by_cylinder_def
      get_vertices_within_range_mask_def get_vertices_by_location_mask_def
      get_edges_by_location_mask_def get_faces_by_location_mask_def dest: mapM_length)

lemma list_ex_selected:
  "length flags = m \<Longrightarrow> list_ex P (selected flags m) = (\<exists>j<m. flags ! j \<and> P j)"
  by (auto simp add: list_ex_iff selected_set)

lemma derived_exact:
  assumes "length primary = m"
  shows "m = length (Vertexes s) \<Longrightarrow>
           derived_exactly (get_edges_by_vertices_mask s (selected primary m)) (length (Edges s))
             primary m (\<lambda>e v. v \<in> set (edge_vertexes (Edges s ! e)))"
    and "m = length (Vertexes s) \<Longrightarrow>
           derived_exactly (get_faces_by_vertices_mask s (selected primary m)) (length (Faces s))
             primary m (\<lambda>f v. v \<in> set (face_vertexes (Faces s ! f)))"
    and "m = length (Edges s) \<Longrightarrow>
           derived_exactly (get_vertices_by_edges_mask s (selected primary m)) (length (Vertexes s))
             primary m (\<lambda>v e. v \<in> set (edge_vertexes (Edges s ! e)))"
    and "m = length (Edges s) \<Longrightarrow>
           derived_exactly (get_faces_by_edges_mask s (selected primary m)) (length (Faces s))
             primary m (\<lambda>f e. e \<in> set (face_edges (Faces s ! f)))"
    and "m = length (Faces s) \<Longrightarrow>
           derived_exactly (get_vertices_by_faces_mask s (selected primary m)) (length (Vertexes s))
             primary m (\<lambda>v f. v \<in> set (face_vertexes (Faces s ! f)))"
    and "m = length (Faces s) \<Longrightarrow>
           derived_exactly (get_edges_by_faces_mask s (selected primary m)) (length (Edges s))
             primary m (\<lambda>e f. e \<in> set (face_edges (Faces s ! f)))"
  using assms
  by (simp_all add: derived_exactly_def list_ex_selected
      get_edges_by_vertices_mask_def get_faces_by_vertices_mask_def
      get_vertices_by_edges_mask_def get_faces_by_edges_mask_def
      get_vertices_by_faces_mask_def get_edges_by_faces_mask_def)

lemma ebind_eq_Inr: "ebind m f = Inr r \<Longrightarrow> \<exists>x. m = Inr x \<and> f x = Inr r"
  by (cases m) simp_all

text \<open>
  Claim C6. Whatever the criterion, when \<open>calc_mask\<close> returns, the two derived masks
  are aligned with the solid's lists and mark exactly the elements incident to at least
  one selected element of the primary kind: vertices and edges of selected faces, vertices
  and faces of selected edges, edges and faces of selected vertices.
\<close>

theorem derived_masks_incident:
  assumes "calc_mask G node s precision direction center percent radius
             = Inr (vertex_mask, edge_mask, face_mask)"
  shows "(element_type node = FACES \<longrightarrow>
            derived_exactly vertex_mask (length (Vertexes s)) face_mask (length (Faces s))
              (\<lambda>v f. v \<in> set (face_vertexes (Faces s ! f)))
          \<and> derived_exactly edge_mask (length (Edges s)) face_mask (length (Faces s))
              (\<lambda>e f. e \<in> set (face_edges (Faces s ! f))))
       \<and> (element_type node = EDGES \<longrightarrow>
            derived_exactly vertex_mask (length (Vertexes s)) edge_mask (length (Edges s))
              (\<lambda>v e. v \<in> set (edge_vertexes (Edges s ! e)))
          \<and> derived_exactly face_mask (length (Faces s)) edge_mask (length (Edges s))
              (\<lambda>f e. e \<in> set (face_edges (Faces s ! f))))
       \<and> (element_type node = VERTS \<longrightarrow>
            derived_exactly edge_mask (length (Edges s)) vertex_mask (length (Vertexes s))
              (\<lambda>e v. v \<in> set (edge_vertexes (Edges s ! e)))
          \<and> derived_exactly face_mask (length (Faces s)) vertex_mask (length (Vertexes s))
              (\<lambda>f v. v \<in> set (face_vertexes (Faces s ! f))))"
proof -
  consider (V) "element_type node = VERTS" | (E) "element_type node = EDGES"
    | (F) "element_type node = FACES"
    by (cases "element_type node") auto
  then show ?thesis
  proof cases
    case V
    from assms V obtain pm where
      prim: "(if criteria_type node = SIDE then verts_by_side s direction percent
              else if criteria_type node = SPHERE then Inr (verts_by_sphere s center radius)
              else if criteria_type node = PLANE then Inr (verts_by_plane G s center direction radius)
              else if criteria_type node = CYLINDER then Inr (verts_by_cylinder G s center direction radius)
              else Inl (Exception ''Unknown criteria for vertices'')) = Inr pm"
      and res: "vertex_mask = pm"
        "edge_mask = get_edges_by_vertices_mask s (selected pm (length (Vertexes s)))"
        "face_mask = get_faces_by_vertices_mask s (selected pm (length (Vertexes s)))"
      unfolding calc_mask_def by (auto simp add: Let_def dest!: ebind_eq_Inr)
    from prim have len: "length pm = length (Vertexes s)"
      by (auto simp add: primary_lengths split: if_splits)
    from derived_exact(1,2)[OF len refl] V res show ?thesis by simp
  next
    case E
    let ?t = "tessellate s precision"
    from assms E obtain pm where
      prim: "(if criteria_type node = SIDE then edges_by_side node ?t direction percent
              else if criteria_type node = SPHERE then edges_by_sphere node ?t center radius
              else if criteria_type node = PLANE then edges_by_plane G node ?t center direction radius
              else if criteria_type node = CYLINDER then edges_by_cylinder G node ?t center direction radius
              else if criteria_type node = DIRECTION then edges_by_direction G ?t direction percent
              else Inl (Exception ''Unknown criteria for edges'')) = Inr pm"
      and res: "edge_mask = pm"
        "vertex_mask = get_vertices_by_edges_mask s (selected pm (length (Edges s)))"
        "face_mask = get_faces_by_edges_mask s (selected pm (length (Edges s)))"
      unfolding calc_mask_def by (auto simp add: Let_def dest!: ebind_eq_Inr)
    from prim have len: "length pm = length (Edges s)"
      by (auto dest: primary_lengths(2,3,9,10,11) split: if_splits)
    from derived_exact(3,4)[OF len refl] E res show ?thesis by simp
  next
    case F
    let ?t = "tessellate s precision"
    from assms F obtain pm where
      prim: "(if criteria_type node = SIDE then faces_by_side node ?t direction percent
              else if criteria_type node = NORMAL then faces_by_normal G ?t direction percent
              else if criteria_type node = SPHERE then faces_by_sphere node ?t center radius
              else if criteria_type node = PLANE then faces_by_plane G node ?t center direction radius
              else if criteria_type node = CYLINDER then faces_by_cylinder G node ?t center direction radius
              else Inl (Exception ''Unknown criteria type for faces'')) = Inr pm"
      and res: "face_mask = pm"
        "vertex_mask = get_vertices_by_faces_mask s (selected pm (length (Faces s)))"
        "edge_mask = get_edges_by_faces_mask s (selected pm (length (Faces s)))"
      unfolding calc_mask_def by (auto simp add: Let_def dest!: ebind_eq_Inr)
    from prim have len: "length pm = length (Faces s)"
      by (auto dest: primary_lengths(4,5,12,13,14) split: if_splits)
    from derived_exact(5,6)[OF len refl] F res show ?thesis by simp
  qed
qed

text \<open>The base face of the tetrahedron, selected by plane, with its vertices and edges.\<close>

theorem derived_masks_incident_witness:
  "calc_mask example_geom (strict_node FACES PLANE) tetrahedron (1/100) (0, 0, 1) (0, 0, 0) 50 (1/2)
     = Inr ([True, True, True, False], [True, True, False, True, False, False],
            [True, False, False, False])
   \<and> derived_exactly [True, True, True, False] 4 [True, False, False, False] 4
         (\<lambda>v f. v \<in> set (face_vertexes (Faces tetrahedron ! f)))
   \<and> derived_exactly [True, True, False, True, False, False] 6 [True, False, False, False] 4
         (\<lambda>e f. e \<in> set (face_edges (Faces tetrahedron ! f)))"
proof -
  have c: "calc_mask example_geom (strict_node FACES PLANE) tetrahedron (1/100) (0, 0, 1) (0, 0, 0) 50 (1/2)
     = Inr ([True, True, True, False], [True, True, False, True, False, False],
            [True, False, False, False])"
    by (simp add: calc_mask_def faces_by_plane_def get_faces_by_location_mask_def example_geom_def
      tetra_defs strict_node_def check_def py_all_def selected_def get_vertices_by_faces_mask_def
      get_edges_by_faces_mask_def Let_def)
  have "element_type (strict_node FACES PLANE) = FACES" "length (Vertexes tetrahedron) = 4"
    "length (Edges tetrahedron) = 6" "length (Faces tetrahedron) = 4"
    by (simp_all add: strict_node_def tetrahedron_def)
  with derived_masks_incident[OF c] c show ?thesis by simp
qed

section \<open>Properties of the vector math node\<close>

text \<open>
  Claim C9. When the output is linked and the recursive application of the function
  raises, with one input through \<open>recurse_fx\<close> or with two through \<open>recurse_fxy\<close>,
  \<open>process\<close> emits \<open>[[]]\<close>.
\<close>

theorem process_discards_error:
  assumes "is_linked"
    and "(num_inputs = 1 \<and> recurse_fx input_one func (leve - 1) = Inl e)
         \<or> (num_inputs = 2 \<and> recurse_fxy input_one input_two func (leve - 1) = Inl e)"
  shows "process func is_linked num_inputs input_one input_two leve = Some (L [L []])"
  using assms by (auto simp add: process_def)

text \<open>
  An exception of the function at a pair of the innermost level ends the recursion, and
  \<open>1/SCALAR\<close> raises on a zero scalar.
\<close>

lemma mapM_raises: "x \<in> set xs \<Longrightarrow> isl (f x) \<Longrightarrow> isl (mapM f xs)"
  by (induction xs) (auto split: sum.splits)

lemma recurse_fxy_leaf_raises:
  assumes "l1 \<noteq> []" and "l2 \<noteq> []"
    and "(u, v) \<in> set (zip_longest l1 l2 (if length l1 > length l2 then last l2 else last l1))"
    and "isl (call2 f u v)"
  shows "isl (recurse_fxy (L l1) (L l2) f 1)"
proof -
  let ?fl = "if length l1 > length l2 then last l2 else last l1"
  have fl: "(if length l1 > length l2 then get_last (L l2) else get_last (L l1)) = Inr ?fl"
    using assms(1,2) by simp
  have "isl (mapM (\<lambda>(u, v). call2 f u v) (zip_longest l1 l2 ?fl))"
    by (rule mapM_raises[OF assms(3)]) (use assms(4) in simp)
  then obtain e where m: "mapM (\<lambda>(u, v). call2 f u v) (zip_longest l1 l2 ?fl) = Inl e"
    by (auto simp add: isl_def)
  have "recurse_fxy (L l1) (L l2) f 1 = Inl e"
    by (subst recurse_fxy.simps) (simp only: fl ebind_Inr m ebind_Inl simp_thms if_True)
  then show ?thesis by simp
qed

lemma one_over_scalar_zero_divisor:
  "one_over_scalar (L [F x, F y, F z]) (F 0) = Inl ZeroDivisionError"
  by (simp add: one_over_scalar_def)

text \<open>Division by a zero scalar in \<open>1/SCALAR\<close>, and the same data with scalar 2.\<close>

lemma one_over_scalar_zero: "one_over_scalar (L [F 4, F 5, F 6]) (F 0) = Inl ZeroDivisionError"
  by (simp add: one_over_scalar_def)

lemma recurse_one_over_scalar_zero:
  "recurse_fxy vectors_in scalars_in (Fun2 one_over_scalar) (3 - 1) = Inl ZeroDivisionError"
  by (simp add: vectors_in_def scalars_in_def one_over_scalar_def)

theorem process_discards_error_witness:
  "recurse_fxy vectors_in scalars_in (Fun2 one_over_scalar) (3 - 1) = Inl ZeroDivisionError
   \<and> process (Fun2 one_over_scalar) True 2 vectors_in scalars_in 3 = Some (L [L []])"
  using process_discards_error[of True 2 vectors_in "Fun2 one_over_scalar" 3 ZeroDivisionError scalars_in]
    recurse_one_over_scalar_zero
  by simp

lemma process_ok_example:
  "process (Fun2 one_over_scalar) True 2 (L [L [L [F 2, F 4, F 6]]]) (L [L [F 2]]) 3
     = Some (L [L [L [F 1, F 2, F 3]]])"
  by (simp add: process_def one_over_scalar_def)

end
